theory Spec2Isabelle
  imports Complex_Main "HOL-Library.Sublist"
begin

section \<open>Strings\<close>

text \<open>
  Strings are lists of bytes. The sources are UTF-8 text: a character outside ASCII is
  written here as its UTF-8 bytes. Host names, file names and the markers the code looks
  for are ASCII. A variable is named after the source where no constant of that name is
  in scope.
\<close>

text \<open>
  \<^verbatim>\<open>String.prototype.toLowerCase\<close> belongs to the runtime, and lowers every cased letter
  of Unicode, some of them by their neighbours. The functions that call it take it as the
  parameter \<open>lc\<close>. On a string of ASCII characters it is \<open>ascii_lower\<close>: the letters
  \<open>A\<close> to \<open>Z\<close> become \<open>a\<close> to \<open>z\<close> and nothing else changes.
\<close>

definition ascii_lower_char :: "char \<Rightarrow> char" where
  "ascii_lower_char c =
     (case map_of (zip ''ABCDEFGHIJKLMNOPQRSTUVWXYZ'' ''abcdefghijklmnopqrstuvwxyz'') c of
        Some l \<Rightarrow> l
      | None \<Rightarrow> c)"

definition ascii_lower :: "string \<Rightarrow> string" where
  "ascii_lower s = map ascii_lower_char s"

text \<open>\<^verbatim>\<open>s.split(c)\<close> for a one-character separator: never empty, \<^verbatim>\<open>''.split(c)\<close> is \<^verbatim>\<open>['']\<close>.\<close>

fun split_on :: "char \<Rightarrow> string \<Rightarrow> string list" where
  "split_on c [] = [[]]"
| "split_on c (x # xs) =
     (if x = c then [] # split_on c xs
      else (case split_on c xs of [] \<Rightarrow> [[x]] | w # ws \<Rightarrow> (x # w) # ws))"

text \<open>\<^verbatim>\<open>s.split(c)[0]\<close>.\<close>

definition first_part :: "char \<Rightarrow> string \<Rightarrow> string" where
  "first_part c s = (case split_on c s of [] \<Rightarrow> [] | w # _ \<Rightarrow> w)"

text \<open>\<^verbatim>\<open>s.includes(t)\<close> and \<^verbatim>\<open>s.endsWith(t)\<close>.\<close>

definition str_includes :: "string \<Rightarrow> string \<Rightarrow> bool" where
  "str_includes s t = sublist t s"

definition endsWith :: "string \<Rightarrow> string \<Rightarrow> bool" where
  "endsWith s t = suffix t s"

section \<open>lib/crypto.ts: the host allow-list\<close>

text \<open>\<^verbatim>\<open>.replace(/^https?:\/\//, '')\<close>: one leading scheme is removed.\<close>

definition strip_scheme :: "string \<Rightarrow> string" where
  "strip_scheme s =
     (if prefix ''http://'' s then drop 7 s
      else if prefix ''https://'' s then drop 8 s
      else s)"

definition normalizeHost :: "(string \<Rightarrow> string) \<Rightarrow> string \<Rightarrow> string" where
  "normalizeHost lc host =
     first_part (CHR '':'') (first_part (CHR ''/'') (strip_scheme (lc host)))"

definition isHostAllowed :: "(string \<Rightarrow> string) \<Rightarrow> string \<Rightarrow> string list \<Rightarrow> bool" where
  "isHostAllowed lc host allowedHosts =
     (let normalizedHost = normalizeHost lc host in
      list_ex (\<lambda>allowed.
         let normalizedAllowed = lc allowed in
         normalizedHost = normalizedAllowed
         \<or> endsWith normalizedHost (''.'' @ normalizedAllowed)) allowedHosts)"

text \<open>
  The same check in the words of its description: the host in lower case, without a
  leading scheme, cut before the first path or port separator.
\<close>

definition host_name_of :: "(string \<Rightarrow> string) \<Rightarrow> string \<Rightarrow> string" where
  "host_name_of lc host =
     takeWhile (\<lambda>c. c \<noteq> CHR ''/'' \<and> c \<noteq> CHR '':'') (strip_scheme (lc host))"

definition host_matches :: "(string \<Rightarrow> string) \<Rightarrow> string \<Rightarrow> string \<Rightarrow> bool" where
  "host_matches lc h entry = (h = lc entry \<or> (\<exists>sub. h = sub @ ''.'' @ lc entry))"

text \<open>A name without a path or port separator (and so without a scheme).\<close>

definition plain_name :: "string \<Rightarrow> bool" where
  "plain_name s = list_all (\<lambda>c. c \<noteq> CHR ''/'' \<and> c \<noteq> CHR '':'') s"

section \<open>lib/store.ts: the connection store\<close>

record EncryptedData =
  salt :: string
  iv :: string
  ct :: string
  v :: int

record StoredConnection =
  conn_id :: string
  encrypted :: EncryptedData
  createdAt :: string
  updatedAt :: string

text \<open>
  \<^verbatim>\<open>connections: Record<string, StoredConnection>\<close> is a plain object used as a dictionary:
  its own properties are the map below.
\<close>

record ConnectionStore =
  connections :: "string \<rightharpoonup> StoredConnection"
  version :: int

definition STORE_VERSION :: int where
  "STORE_VERSION = 1"

text \<open>
  The state the module works on: \<open>disk\<close> is what reading and parsing the store file
  gives (\<open>None\<close> when either throws), \<open>disk_writable\<close> says whether the directory can
  be made and the file written and renamed, \<open>memoryStore\<close> is the module variable.
  \<open>saved\<close> records every call of \<^verbatim>\<open>saveStore\<close> with the store it was given, oldest first.
\<close>

record store_state =
  disk :: "ConnectionStore option"
  disk_writable :: bool
  memoryStore :: "ConnectionStore option"
  saved :: "ConnectionStore list"

definition initializeStore :: ConnectionStore where
  "initializeStore = \<lparr>connections = Map.empty, version = STORE_VERSION\<rparr>"

definition loadStore :: "store_state \<Rightarrow> ConnectionStore" where
  "loadStore st =
     (case disk st of
        Some parsed \<Rightarrow> if version parsed \<noteq> STORE_VERSION then initializeStore else parsed
      | None \<Rightarrow> (case memoryStore st of Some m \<Rightarrow> m | None \<Rightarrow> initializeStore))"

definition saveStore :: "ConnectionStore \<Rightarrow> store_state \<Rightarrow> store_state" where
  "saveStore store st =
     (if disk_writable st
      then st\<lparr>disk := Some store, memoryStore := Some store, saved := saved st @ [store]\<rparr>
      else st\<lparr>memoryStore := Some store, saved := saved st @ [store]\<rparr>)"

text \<open>
  \<^verbatim>\<open>obj[key]\<close> on an object made by \<^verbatim>\<open>JSON.parse\<close> or by an object literal reads the
  object's own property and, when there is none, the member of \<^verbatim>\<open>Object.prototype\<close> of
  that name. Stored connections are objects, and the inherited members are functions or
  the prototype object: all are truthy.
\<close>

definition object_prototype_keys :: "string list" where
  "object_prototype_keys =
     [''constructor'', ''__proto__'', ''hasOwnProperty'', ''isPrototypeOf'',
      ''propertyIsEnumerable'', ''toLocaleString'', ''toString'', ''valueOf'',
      ''__defineGetter__'', ''__defineSetter__'', ''__lookupGetter__'', ''__lookupSetter__'']"

definition truthy_property :: "(string \<rightharpoonup> 'a) \<Rightarrow> string \<Rightarrow> bool" where
  "truthy_property obj key = (obj key \<noteq> None \<or> key \<in> set object_prototype_keys)"

text \<open>\<^verbatim>\<open>delete obj[key]\<close> removes an own property and leaves everything else.\<close>

definition delete_property :: "(string \<rightharpoonup> 'a) \<Rightarrow> string \<Rightarrow> (string \<rightharpoonup> 'a)" where
  "delete_property obj key = obj(key := None)"

definition deleteConnection :: "string \<Rightarrow> store_state \<Rightarrow> bool \<times> store_state" where
  "deleteConnection cid st =
     (let store = loadStore st in
      if \<not> truthy_property (connections store) cid then (False, st)
      else (True, saveStore (store\<lparr>connections := delete_property (connections store) cid\<rparr>) st))"

definition empty_disk :: store_state where
  "empty_disk =
     \<lparr>disk = Some initializeStore, disk_writable = True, memoryStore = None, saved = []\<rparr>"

section \<open>Text helpers\<close>

text \<open>The UTF-8 bytes of the accented letters the messages use.\<close>

abbreviation e_acute :: string where
  "e_acute \<equiv> [CHR 0xC3, CHR 0xA9]"

abbreviation a_grave :: string where
  "a_grave \<equiv> [CHR 0xC3, CHR 0xA0]"

abbreviation E_acute :: string where
  "E_acute \<equiv> [CHR 0xC3, CHR 0x89]"

abbreviation o_circ :: string where
  "o_circ \<equiv> [CHR 0xC3, CHR 0xB4]"

text \<open>A count inside a template literal: the decimal digits of a natural number.\<close>

definition digit_char :: "nat \<Rightarrow> char" where
  "digit_char d = (case d of 0 \<Rightarrow> CHR ''0'' | Suc 0 \<Rightarrow> CHR ''1'' | Suc (Suc 0) \<Rightarrow> CHR ''2''
     | Suc (Suc (Suc 0)) \<Rightarrow> CHR ''3'' | Suc (Suc (Suc (Suc 0))) \<Rightarrow> CHR ''4''
     | Suc (Suc (Suc (Suc (Suc 0)))) \<Rightarrow> CHR ''5''
     | Suc (Suc (Suc (Suc (Suc (Suc 0))))) \<Rightarrow> CHR ''6''
     | Suc (Suc (Suc (Suc (Suc (Suc (Suc 0)))))) \<Rightarrow> CHR ''7''
     | Suc (Suc (Suc (Suc (Suc (Suc (Suc (Suc 0))))))) \<Rightarrow> CHR ''8''
     | _ \<Rightarrow> CHR ''9'')"

function show_nat :: "nat \<Rightarrow> string" where
  "show_nat n = (if n < 10 then [digit_char n] else show_nat (n div 10) @ [digit_char (n mod 10)])"
  by pat_completeness auto
termination
  by (relation "measure id") auto

declare show_nat.simps [simp del]

text \<open>\<^verbatim>\<open>parts.join(sep)\<close>.\<close>

fun join :: "string \<Rightarrow> string list \<Rightarrow> string" where
  "join sep [] = []"
| "join sep [x] = x"
| "join sep (x # y # ys) = x @ sep @ join sep (y # ys)"

section \<open>The working tree\<close>

text \<open>
  The working directory is a tree of named entries, in the order \<^verbatim>\<open>readdir\<close> lists them.
  A path below the working directory is the list of its components:
  \<^verbatim>\<open>path.join(workDir, 'app/layout.tsx')\<close> is \<open>[''app'', ''layout.tsx'']\<close>.
\<close>

datatype perm = ReadWrite | ReadOnly | NoAccess

datatype node = File perm string | Dir "(string \<times> node) list"

type_synonym rpath = "string list"

datatype io_error = ENOENT | EISDIR | ENOTDIR | EACCES | EEXIST

text \<open>
  The \<^verbatim>\<open>message\<close> of the error a file operation throws. Node's wording is shortened to the
  error code and the path.
\<close>

definition io_code :: "io_error \<Rightarrow> string" where
  "io_code e = (case e of ENOENT \<Rightarrow> ''ENOENT'' | EISDIR \<Rightarrow> ''EISDIR'' | ENOTDIR \<Rightarrow> ''ENOTDIR''
     | EACCES \<Rightarrow> ''EACCES'' | EEXIST \<Rightarrow> ''EEXIST'')"

definition io_message :: "io_error \<Rightarrow> rpath \<Rightarrow> string" where
  "io_message e p = io_code e @ '': '' @ join ''/'' p"

fun lookup :: "rpath \<Rightarrow> node \<Rightarrow> node option" where
  "lookup [] n = Some n"
| "lookup (x # xs) n =
     (case n of
        File _ _ \<Rightarrow> None
      | Dir es \<Rightarrow> (case map_of es x of None \<Rightarrow> None | Some m \<Rightarrow> lookup xs m))"

fun set_entry :: "string \<Rightarrow> node \<Rightarrow> (string \<times> node) list \<Rightarrow> (string \<times> node) list" where
  "set_entry x m [] = [(x, m)]"
| "set_entry x m ((k, n) # es) = (if k = x then (k, m) # es else (k, n) # set_entry x m es)"

text \<open>\<^verbatim>\<open>fs.access\<close> wrapped in \<^verbatim>\<open>fileExists\<close>: anything found at the path counts.\<close>

definition fileExists :: "rpath \<Rightarrow> node \<Rightarrow> bool" where
  "fileExists p fs = (lookup p fs \<noteq> None)"

definition readFile :: "rpath \<Rightarrow> node \<Rightarrow> string + string" where
  "readFile p fs =
     (case lookup p fs of
        None \<Rightarrow> Inl (io_message ENOENT p)
      | Some (Dir _) \<Rightarrow> Inl (io_message EISDIR p)
      | Some (File pm c) \<Rightarrow> if pm = NoAccess then Inl (io_message EACCES p) else Inr c)"

fun write_node :: "rpath \<Rightarrow> string \<Rightarrow> node \<Rightarrow> io_error + node" where
  "write_node [] c n =
     (case n of
        Dir _ \<Rightarrow> Inl EISDIR
      | File pm _ \<Rightarrow> if pm = ReadWrite then Inr (File ReadWrite c) else Inl EACCES)"
| "write_node (x # xs) c n =
     (case n of
        File _ _ \<Rightarrow> Inl ENOTDIR
      | Dir es \<Rightarrow>
          (case map_of es x of
             None \<Rightarrow> if xs = [] then Inr (Dir (es @ [(x, File ReadWrite c)])) else Inl ENOENT
           | Some m \<Rightarrow>
               (case write_node xs c m of
                  Inl e \<Rightarrow> Inl e
                | Inr m' \<Rightarrow> Inr (Dir (set_entry x m' es)))))"

definition writeFile :: "rpath \<Rightarrow> string \<Rightarrow> node \<Rightarrow> string + node" where
  "writeFile p c fs =
     (case write_node p c fs of Inl e \<Rightarrow> Inl (io_message e p) | Inr fs' \<Rightarrow> Inr fs')"

text \<open>\<^verbatim>\<open>fs.mkdir(p, { recursive: true })\<close>.\<close>

fun mkdir_node :: "rpath \<Rightarrow> node \<Rightarrow> io_error + node" where
  "mkdir_node [] n = (case n of Dir _ \<Rightarrow> Inr n | File _ _ \<Rightarrow> Inl EEXIST)"
| "mkdir_node (x # xs) n =
     (case n of
        File _ _ \<Rightarrow> Inl ENOTDIR
      | Dir es \<Rightarrow>
          (case map_of es x of
             None \<Rightarrow>
               (case mkdir_node xs (Dir []) of
                  Inl e \<Rightarrow> Inl e
                | Inr m \<Rightarrow> Inr (Dir (es @ [(x, m)])))
           | Some m \<Rightarrow>
               (case mkdir_node xs m of
                  Inl e \<Rightarrow> Inl e
                | Inr m' \<Rightarrow> Inr (Dir (set_entry x m' es)))))"

definition mkdir :: "rpath \<Rightarrow> node \<Rightarrow> string + node" where
  "mkdir p fs =
     (case mkdir_node p fs of Inl e \<Rightarrow> Inl (io_message e p) | Inr fs' \<Rightarrow> Inr fs')"

text \<open>
  \<^verbatim>\<open>findFiles\<close>: the walk skips \<^verbatim>\<open>node_modules\<close>, \<^verbatim>\<open>.next\<close> and \<^verbatim>\<open>.git\<close>, descends
  into directories and keeps every other entry whose name the pattern accepts.
\<close>

fun scan :: "(string \<Rightarrow> bool) \<Rightarrow> rpath \<Rightarrow> (string \<times> node) list \<Rightarrow> rpath list" where
  "scan pattern currentDir [] = []"
| "scan pattern currentDir ((name, n) # entries) =
     (if name = ''node_modules'' \<or> name = ''.next'' \<or> name = ''.git''
      then scan pattern currentDir entries
      else (case n of
              Dir es \<Rightarrow> scan pattern (currentDir @ [name]) es @ scan pattern currentDir entries
            | File _ _ \<Rightarrow>
                (if pattern name then [currentDir @ [name]] else [])
                @ scan pattern currentDir entries))"

definition findFiles :: "node \<Rightarrow> (string \<Rightarrow> bool) \<Rightarrow> rpath list" where
  "findFiles fs pattern = (case fs of Dir es \<Rightarrow> scan pattern [] es | File _ _ \<Rightarrow> [])"

text \<open>The patterns \<^verbatim>\<open>/\.(tsx|jsx)$/\<close>, \<^verbatim>\<open>/\.css$/\<close> and \<^verbatim>\<open>/page\.tsx$/\<close>.\<close>

definition tsx_or_jsx :: "string \<Rightarrow> bool" where
  "tsx_or_jsx name = (endsWith name ''.tsx'' \<or> endsWith name ''.jsx'')"

definition css_file :: "string \<Rightarrow> bool" where
  "css_file name = endsWith name ''.css''"

definition page_tsx :: "string \<Rightarrow> bool" where
  "page_tsx name = endsWith name ''page.tsx''"

section \<open>lib/optimizer/perf.ts and seo.ts: the patch steps\<close>

record PerfOptimizationResult =
  applied :: "string list"
  skipped :: "string list"
  errors :: "string list"

type_synonym SeoOptimizationResult = PerfOptimizationResult

definition empty_result :: PerfOptimizationResult where
  "empty_result = \<lparr>applied = [], skipped = [], errors = []\<rparr>"

definition push_applied :: "string \<Rightarrow> PerfOptimizationResult \<Rightarrow> PerfOptimizationResult" where
  "push_applied m r = r\<lparr>applied := applied r @ [m]\<rparr>"

definition push_skipped :: "string \<Rightarrow> PerfOptimizationResult \<Rightarrow> PerfOptimizationResult" where
  "push_skipped m r = r\<lparr>skipped := skipped r @ [m]\<rparr>"

definition push_error :: "string \<Rightarrow> PerfOptimizationResult \<Rightarrow> PerfOptimizationResult" where
  "push_error m r = r\<lparr>errors := errors r @ [m]\<rparr>"

text \<open>
  What the steps write is produced by regular-expression replacement, by fixed templates
  and by \<^verbatim>\<open>JSON\<close>; the outcome lists do not depend on it, and it is taken as given:
  each field is the text operation of the step that uses it. \<open>parsePackageJson\<close> is
  \<open>Inl\<close> the message when \<^verbatim>\<open>JSON.parse\<close> or the access to \<^verbatim>\<open>scripts\<close> throws, and otherwise
  tells whether \<^verbatim>\<open>scripts.analyze\<close> is set; \<open>countMissingAlt\<close> is the number of matches of
  the image-without-alt pattern.
\<close>

record text_ops =
  insertNextConfig :: "string \<Rightarrow> string"
  imageLoadingLazy :: "string \<Rightarrow> string"
  imageDecodingAsync :: "string \<Rightarrow> string"
  fontDisplaySwap :: "string \<Rightarrow> string"
  middlewareSource :: string
  parsePackageJson :: "string \<Rightarrow> string + bool"
  addAnalyzeScript :: "string \<Rightarrow> string"
  insertMetadata :: "string \<Rightarrow> string \<Rightarrow> string"
  robotsTxtSource :: "string \<Rightarrow> string"
  sitemapSource :: "string \<Rightarrow> string"
  structuredDataSource :: "string \<Rightarrow> string"
  insertCanonical :: "string \<Rightarrow> rpath \<Rightarrow> string \<Rightarrow> string"
  countMissingAlt :: "string \<Rightarrow> nat"

definition optimizeNextConfig ::
  "text_ops \<Rightarrow> node \<Rightarrow> PerfOptimizationResult \<Rightarrow> node \<times> PerfOptimizationResult" where
  "optimizeNextConfig T fs result =
     (let configPath = [''next.config.js''];
          configTsPath = [''next.config.ts''];
          targetPath = (if fileExists configPath fs then configPath else configTsPath)
      in if \<not> fileExists targetPath fs
         then (fs, push_skipped (''next.config.js - fichier non trouv'' @ e_acute) result)
         else (case readFile targetPath fs of
                 Inl m \<Rightarrow> (fs, push_error (''next.config.js - '' @ m) result)
               | Inr config \<Rightarrow>
                   if \<not> str_includes config ''swcMinify'' \<and> \<not> str_includes config ''compress''
                   then (case writeFile targetPath (insertNextConfig T config) fs of
                           Inl m \<Rightarrow> (fs, push_error (''next.config.js - '' @ m) result)
                         | Inr fs' \<Rightarrow>
                             (fs', push_applied
                                (''next.config.js - optimisations ajout'' @ e_acute @ ''es'') result))
                   else (fs, push_skipped
                           (''next.config.js - d'' @ e_acute @ ''j'' @ a_grave @ '' optimis''
                              @ e_acute) result)))"

text \<open>
  The loop of \<^verbatim>\<open>optimizeImages\<close> over the files found: the count of files written so far,
  or the message of the first read or write that throws, with the tree as it is then.
\<close>

fun images_loop :: "text_ops \<Rightarrow> rpath list \<Rightarrow> nat \<Rightarrow> node \<Rightarrow> (string + nat) \<times> node" where
  "images_loop T [] optimizedCount fs = (Inr optimizedCount, fs)"
| "images_loop T (file # files) optimizedCount fs =
     (case readFile file fs of
        Inl m \<Rightarrow> (Inl m, fs)
      | Inr content \<Rightarrow>
          (let lazy = (str_includes content ''<Image'' \<and> \<not> str_includes content ''loading='');
               content1 = (if lazy then imageLoadingLazy T content else content);
               async = (str_includes content1 ''<Image'' \<and> \<not> str_includes content1 ''decoding='');
               content2 = (if async then imageDecodingAsync T content1 else content1)
           in if lazy \<or> async
              then (case writeFile file content2 fs of
                      Inl m \<Rightarrow> (Inl m, fs)
                    | Inr fs' \<Rightarrow> images_loop T files (Suc optimizedCount) fs')
              else images_loop T files optimizedCount fs))"

definition optimizeImages ::
  "text_ops \<Rightarrow> node \<Rightarrow> PerfOptimizationResult \<Rightarrow> node \<times> PerfOptimizationResult" where
  "optimizeImages T fs result =
     (case images_loop T (findFiles fs tsx_or_jsx) 0 fs of
        (Inl m, fs') \<Rightarrow> (fs', push_error (''Images - '' @ m) result)
      | (Inr optimizedCount, fs') \<Rightarrow>
          if optimizedCount > 0
          then (fs', push_applied
                  (''Images - '' @ show_nat optimizedCount @ '' fichiers optimis'' @ e_acute
                     @ ''s'') result)
          else (fs', push_skipped
                  (''Images - aucun fichier '' @ a_grave @ '' optimiser'') result))"

fun fonts_loop :: "text_ops \<Rightarrow> rpath list \<Rightarrow> nat \<Rightarrow> node \<Rightarrow> (string + nat) \<times> node" where
  "fonts_loop T [] optimizedCount fs = (Inr optimizedCount, fs)"
| "fonts_loop T (file # files) optimizedCount fs =
     (case readFile file fs of
        Inl m \<Rightarrow> (Inl m, fs)
      | Inr content \<Rightarrow>
          if str_includes content ''@font-face'' \<and> \<not> str_includes content ''font-display''
          then (case writeFile file (fontDisplaySwap T content) fs of
                  Inl m \<Rightarrow> (Inl m, fs)
                | Inr fs' \<Rightarrow> fonts_loop T files (Suc optimizedCount) fs')
          else fonts_loop T files optimizedCount fs)"

definition optimizeFonts ::
  "text_ops \<Rightarrow> node \<Rightarrow> PerfOptimizationResult \<Rightarrow> node \<times> PerfOptimizationResult" where
  "optimizeFonts T fs result =
     (case fonts_loop T (findFiles fs css_file) 0 fs of
        (Inl m, fs') \<Rightarrow> (fs', push_error (''Fonts - '' @ m) result)
      | (Inr optimizedCount, fs') \<Rightarrow>
          if optimizedCount > 0
          then (fs', push_applied
                  (''Fonts - '' @ show_nat optimizedCount @ '' fichiers optimis'' @ e_acute
                     @ ''s (font-display: swap)'') result)
          else (fs', push_skipped (''Fonts - aucun @font-face trouv'' @ e_acute) result))"

definition optimizeCacheHeaders ::
  "text_ops \<Rightarrow> node \<Rightarrow> PerfOptimizationResult \<Rightarrow> node \<times> PerfOptimizationResult" where
  "optimizeCacheHeaders T fs result =
     (let middlewarePath = [''middleware.ts'']
      in if \<not> fileExists middlewarePath fs
         then (case writeFile middlewarePath (middlewareSource T) fs of
                 Inl m \<Rightarrow> (fs, push_error (''Cache headers - '' @ m) result)
               | Inr fs' \<Rightarrow>
                   (fs', push_applied (''Cache headers - middleware cr'' @ e_acute @ e_acute)
                           result))
         else (fs, push_skipped
                 (''Cache headers - middleware existe d'' @ e_acute @ ''j'' @ a_grave) result))"

definition optimizeBundle ::
  "text_ops \<Rightarrow> node \<Rightarrow> PerfOptimizationResult \<Rightarrow> node \<times> PerfOptimizationResult" where
  "optimizeBundle T fs result =
     (let packageJsonPath = [''package.json'']
      in if \<not> fileExists packageJsonPath fs
         then (fs, push_skipped (''Bundle - package.json non trouv'' @ e_acute) result)
         else (case readFile packageJsonPath fs of
                 Inl m \<Rightarrow> (fs, push_error (''Bundle - '' @ m) result)
               | Inr raw \<Rightarrow>
                   (case parsePackageJson T raw of
                      Inl m \<Rightarrow> (fs, push_error (''Bundle - '' @ m) result)
                    | Inr hasAnalyze \<Rightarrow>
                        if \<not> hasAnalyze
                        then (case writeFile packageJsonPath (addAnalyzeScript T raw) fs of
                                Inl m \<Rightarrow> (fs, push_error (''Bundle - '' @ m) result)
                              | Inr fs' \<Rightarrow>
                                  (fs', push_applied
                                     (''Bundle - script analyze ajout'' @ e_acute) result))
                        else (fs, push_skipped
                                (''Bundle - script analyze existe d'' @ e_acute @ ''j'' @ a_grave)
                                result))))"

text \<open>The loop of \<^verbatim>\<open>optimizeCodeSplitting\<close>: every file found is read, nothing is kept.\<close>

fun read_each :: "rpath list \<Rightarrow> node \<Rightarrow> string + unit" where
  "read_each [] fs = Inr ()"
| "read_each (file # files) fs =
     (case readFile file fs of Inl m \<Rightarrow> Inl m | Inr content \<Rightarrow> read_each files fs)"

definition optimizeCodeSplitting ::
  "node \<Rightarrow> PerfOptimizationResult \<Rightarrow> node \<times> PerfOptimizationResult" where
  "optimizeCodeSplitting fs result =
     (case read_each (findFiles fs tsx_or_jsx) fs of
        Inl m \<Rightarrow> (fs, push_error (''Code splitting - '' @ m) result)
      | Inr _ \<Rightarrow> (fs, push_skipped ''Code splitting - analyse manuelle requise'' result))"

definition purgeCss ::
  "node \<Rightarrow> PerfOptimizationResult \<Rightarrow> node \<times> PerfOptimizationResult" where
  "purgeCss fs result =
     (let tailwindConfigPath = [''tailwind.config.js'']
      in if fileExists tailwindConfigPath fs
         then (case readFile tailwindConfigPath fs of
                 Inl m \<Rightarrow> (fs, push_error (''CSS Purge - '' @ m) result)
               | Inr config \<Rightarrow>
                   if \<not> str_includes config ''content:'' \<and> \<not> str_includes config ''purge:''
                   then (fs, push_error ''Tailwind - configuration content manquante'' result)
                   else (fs, push_skipped
                           (''Tailwind - purge d'' @ e_acute @ ''j'' @ a_grave @ '' configur''
                              @ e_acute) result))
         else (fs, push_skipped
                 (''CSS Purge - Tailwind non d'' @ e_acute @ ''tect'' @ e_acute) result))"

definition applyPerfOptimizations :: "text_ops \<Rightarrow> node \<Rightarrow> node \<times> PerfOptimizationResult" where
  "applyPerfOptimizations T fs =
     (let (fs1, r1) = optimizeNextConfig T fs empty_result;
          (fs2, r2) = optimizeImages T fs1 r1;
          (fs3, r3) = optimizeFonts T fs2 r2;
          (fs4, r4) = optimizeCacheHeaders T fs3 r3;
          (fs5, r5) = optimizeBundle T fs4 r4;
          (fs6, r6) = optimizeCodeSplitting fs5 r5;
          (fs7, r7) = purgeCss fs6 r6
      in (fs7, r7))"

text \<open>\<^verbatim>\<open>seo.ts\<close>. The first of the two layout paths that exists.\<close>

definition find_layout :: "node \<Rightarrow> rpath option" where
  "find_layout fs =
     (if fileExists [''app'', ''layout.tsx''] fs then Some [''app'', ''layout.tsx'']
      else if fileExists [''src'', ''app'', ''layout.tsx''] fs
           then Some [''src'', ''app'', ''layout.tsx'']
      else None)"

definition optimizeMetaTags ::
  "text_ops \<Rightarrow> string \<Rightarrow> node \<Rightarrow> SeoOptimizationResult \<Rightarrow> node \<times> SeoOptimizationResult" where
  "optimizeMetaTags T siteUrl fs result =
     (case find_layout fs of
        None \<Rightarrow> (fs, push_skipped (''Meta tags - layout.tsx non trouv'' @ e_acute) result)
      | Some layoutPath \<Rightarrow>
          (case readFile layoutPath fs of
             Inl m \<Rightarrow> (fs, push_error (''Meta tags - '' @ m) result)
           | Inr layout \<Rightarrow>
               if str_includes layout ''export const metadata''
               then (fs, push_skipped
                       (''Meta tags - metadata d'' @ e_acute @ ''j'' @ a_grave @ '' d'' @ e_acute
                          @ ''fini'') result)
               else (case writeFile layoutPath (insertMetadata T siteUrl layout) fs of
                       Inl m \<Rightarrow> (fs, push_error (''Meta tags - '' @ m) result)
                     | Inr fs' \<Rightarrow>
                         (fs', push_applied
                            (''Meta tags - metadata ajout'' @ e_acute @ '' au layout'') result))))"

definition optimizeRobotsTxt ::
  "text_ops \<Rightarrow> string \<Rightarrow> node \<Rightarrow> SeoOptimizationResult \<Rightarrow> node \<times> SeoOptimizationResult" where
  "optimizeRobotsTxt T siteUrl fs result =
     (case mkdir [''public''] fs of
        Inl m \<Rightarrow> (fs, push_error (''robots.txt - '' @ m) result)
      | Inr fs1 \<Rightarrow>
          (case writeFile [''public'', ''robots.txt''] (robotsTxtSource T siteUrl) fs1 of
             Inl m \<Rightarrow> (fs1, push_error (''robots.txt - '' @ m) result)
           | Inr fs2 \<Rightarrow>
               (fs2, push_applied
                  (''robots.txt - cr'' @ e_acute @ e_acute @ ''/mis '' @ a_grave @ '' jour'')
                  result)))"

definition optimizeSitemap ::
  "text_ops \<Rightarrow> string \<Rightarrow> node \<Rightarrow> SeoOptimizationResult \<Rightarrow> node \<times> SeoOptimizationResult" where
  "optimizeSitemap T siteUrl fs result =
     (let sitemapPath = [''app'', ''sitemap.ts'']
      in if fileExists sitemapPath fs
         then (fs, push_skipped
                 (''sitemap.xml - sitemap.ts existe d'' @ e_acute @ ''j'' @ a_grave) result)
         else (case writeFile sitemapPath (sitemapSource T siteUrl) fs of
                 Inl m \<Rightarrow> (fs, push_error (''sitemap.xml - '' @ m) result)
               | Inr fs' \<Rightarrow>
                   (fs', push_applied
                      (''sitemap.xml - sitemap.ts g'' @ e_acute @ ''n'' @ e_acute @ ''r''
                         @ e_acute) result)))"

definition addStructuredData ::
  "text_ops \<Rightarrow> string \<Rightarrow> node \<Rightarrow> SeoOptimizationResult \<Rightarrow> node \<times> SeoOptimizationResult" where
  "addStructuredData T siteUrl fs result =
     (let componentDir = [''components'', ''seo'']
      in case mkdir componentDir fs of
           Inl m \<Rightarrow> (fs, push_error (''Schema.org - '' @ m) result)
         | Inr fs1 \<Rightarrow>
             (let structuredDataPath = componentDir @ [''StructuredData.tsx'']
              in if fileExists structuredDataPath fs1
                 then (fs1, push_skipped
                         (''Schema.org - composant existe d'' @ e_acute @ ''j'' @ a_grave)
                         result)
                 else (case writeFile structuredDataPath (structuredDataSource T siteUrl) fs1 of
                         Inl m \<Rightarrow> (fs1, push_error (''Schema.org - '' @ m) result)
                       | Inr fs2 \<Rightarrow>
                           (fs2, push_applied
                              (''Schema.org - composant StructuredData cr'' @ e_acute @ e_acute)
                              result))))"

fun canonical_loop ::
  "text_ops \<Rightarrow> string \<Rightarrow> rpath list \<Rightarrow> nat \<Rightarrow> node \<Rightarrow> (string + nat) \<times> node" where
  "canonical_loop T siteUrl [] modifiedCount fs = (Inr modifiedCount, fs)"
| "canonical_loop T siteUrl (file # files) modifiedCount fs =
     (case readFile file fs of
        Inl m \<Rightarrow> (Inl m, fs)
      | Inr content \<Rightarrow>
          if str_includes content ''export const metadata'' \<and> \<not> str_includes content ''alternates''
          then (case writeFile file (insertCanonical T siteUrl (butlast file) content) fs of
                  Inl m \<Rightarrow> (Inl m, fs)
                | Inr fs' \<Rightarrow> canonical_loop T siteUrl files (Suc modifiedCount) fs')
          else canonical_loop T siteUrl files modifiedCount fs)"

definition addCanonicalUrls ::
  "text_ops \<Rightarrow> string \<Rightarrow> node \<Rightarrow> SeoOptimizationResult \<Rightarrow> node \<times> SeoOptimizationResult" where
  "addCanonicalUrls T siteUrl fs result =
     (case canonical_loop T siteUrl (findFiles fs page_tsx) 0 fs of
        (Inl m, fs') \<Rightarrow> (fs', push_error (''Canonical URLs - '' @ m) result)
      | (Inr modifiedCount, fs') \<Rightarrow>
          if modifiedCount > 0
          then (fs', push_applied
                  (''Canonical URLs - '' @ show_nat modifiedCount @ '' pages mises '' @ a_grave
                     @ '' jour'') result)
          else (fs', push_skipped
                  (''Canonical URLs - aucune page '' @ a_grave @ '' modifier'') result))"

text \<open>The entry of \<^verbatim>\<open>missingAlt\<close> for a file: its path below the working directory and the count.\<close>

definition missing_alt_entry :: "rpath \<Rightarrow> nat \<Rightarrow> string" where
  "missing_alt_entry file n = join ''/'' file @ '' ('' @ show_nat n @ '' images)''"

fun alt_loop :: "text_ops \<Rightarrow> node \<Rightarrow> string list \<Rightarrow> rpath list \<Rightarrow> string + string list" where
  "alt_loop T fs missingAlt [] = Inr missingAlt"
| "alt_loop T fs missingAlt (file # files) =
     (case readFile file fs of
        Inl m \<Rightarrow> Inl m
      | Inr content \<Rightarrow>
          alt_loop T fs
            (if countMissingAlt T content > 0
             then missingAlt @ [missing_alt_entry file (countMissingAlt T content)]
             else missingAlt) files)"

definition checkImageAltTexts ::
  "text_ops \<Rightarrow> node \<Rightarrow> SeoOptimizationResult \<Rightarrow> node \<times> SeoOptimizationResult" where
  "checkImageAltTexts T fs result =
     (case alt_loop T fs [] (findFiles fs tsx_or_jsx) of
        Inl m \<Rightarrow> (fs, push_error (''Alt texts - '' @ m) result)
      | Inr missingAlt \<Rightarrow>
          if length missingAlt > 0
          then (fs, push_error (''Alt texts manquants dans: '' @ join '', '' missingAlt) result)
          else (fs, push_applied ''Alt texts - toutes les images ont des descriptions'' result))"

definition applySeoOptimizations ::
  "text_ops \<Rightarrow> string \<Rightarrow> node \<Rightarrow> node \<times> SeoOptimizationResult" where
  "applySeoOptimizations T siteUrl fs =
     (let (fs1, r1) = optimizeMetaTags T siteUrl fs empty_result;
          (fs2, r2) = optimizeRobotsTxt T siteUrl fs1 r1;
          (fs3, r3) = optimizeSitemap T siteUrl fs2 r2;
          (fs4, r4) = addStructuredData T siteUrl fs3 r3;
          (fs5, r5) = addCanonicalUrls T siteUrl fs4 r4;
          (fs6, r6) = checkImageAltTexts T fs5 r5
      in (fs6, r6))"

section \<open>Notions used to state the properties of the patch steps\<close>

text \<open>\<open>ys\<close> is \<open>xs\<close> with one more element at the end.\<close>

definition one_more :: "'a list \<Rightarrow> 'a list \<Rightarrow> bool" where
  "one_more xs ys = (length ys = Suc (length xs) \<and> take (length xs) ys = xs)"

text \<open>The second outcome is the first with one entry added to exactly one of the three lists.\<close>

definition one_entry :: "PerfOptimizationResult \<Rightarrow> PerfOptimizationResult \<Rightarrow> bool" where
  "one_entry r r' =
     ((one_more (applied r) (applied r') \<and> skipped r' = skipped r \<and> errors r' = errors r)
      \<or> (applied r' = applied r \<and> one_more (skipped r) (skipped r') \<and> errors r' = errors r)
      \<or> (applied r' = applied r \<and> skipped r' = skipped r \<and> one_more (errors r) (errors r')))"

text \<open>The descriptions the steps of \<^verbatim>\<open>perf.ts\<close> and \<^verbatim>\<open>seo.ts\<close> can put into each list.\<close>

definition applied_texts :: "string set" where
  "applied_texts =
     {''next.config.js - optimisations ajout'' @ e_acute @ ''es'',
      ''Cache headers - middleware cr'' @ e_acute @ e_acute,
      ''Bundle - script analyze ajout'' @ e_acute,
      ''Meta tags - metadata ajout'' @ e_acute @ '' au layout'',
      ''robots.txt - cr'' @ e_acute @ e_acute @ ''/mis '' @ a_grave @ '' jour'',
      ''sitemap.xml - sitemap.ts g'' @ e_acute @ ''n'' @ e_acute @ ''r'' @ e_acute,
      ''Schema.org - composant StructuredData cr'' @ e_acute @ e_acute,
      ''Alt texts - toutes les images ont des descriptions''}
     \<union> range (\<lambda>n. ''Images - '' @ show_nat n @ '' fichiers optimis'' @ e_acute @ ''s'')
     \<union> range (\<lambda>n. ''Fonts - '' @ show_nat n @ '' fichiers optimis'' @ e_acute
                   @ ''s (font-display: swap)'')
     \<union> range (\<lambda>n. ''Canonical URLs - '' @ show_nat n @ '' pages mises '' @ a_grave
                   @ '' jour'')"

definition skipped_texts :: "string set" where
  "skipped_texts =
     {''next.config.js - fichier non trouv'' @ e_acute,
      ''next.config.js - d'' @ e_acute @ ''j'' @ a_grave @ '' optimis'' @ e_acute,
      ''Images - aucun fichier '' @ a_grave @ '' optimiser'',
      ''Fonts - aucun @font-face trouv'' @ e_acute,
      ''Cache headers - middleware existe d'' @ e_acute @ ''j'' @ a_grave,
      ''Bundle - package.json non trouv'' @ e_acute,
      ''Bundle - script analyze existe d'' @ e_acute @ ''j'' @ a_grave,
      ''Code splitting - analyse manuelle requise'',
      ''Tailwind - purge d'' @ e_acute @ ''j'' @ a_grave @ '' configur'' @ e_acute,
      ''CSS Purge - Tailwind non d'' @ e_acute @ ''tect'' @ e_acute,
      ''Meta tags - layout.tsx non trouv'' @ e_acute,
      ''Meta tags - metadata d'' @ e_acute @ ''j'' @ a_grave @ '' d'' @ e_acute @ ''fini'',
      ''sitemap.xml - sitemap.ts existe d'' @ e_acute @ ''j'' @ a_grave,
      ''Schema.org - composant existe d'' @ e_acute @ ''j'' @ a_grave,
      ''Canonical URLs - aucune page '' @ a_grave @ '' modifier''}"

text \<open>One entry added, and a description from the sets above when it is not an error.\<close>

definition step_adds :: "PerfOptimizationResult \<Rightarrow> PerfOptimizationResult \<Rightarrow> bool" where
  "step_adds r r' =
     ((\<exists>m. m \<in> applied_texts \<and> r' = push_applied m r)
      \<or> (\<exists>m. m \<in> skipped_texts \<and> r' = push_skipped m r)
      \<or> (\<exists>m. r' = push_error m r))"

definition known_texts :: "PerfOptimizationResult \<Rightarrow> bool" where
  "known_texts r = (set (applied r) \<subseteq> applied_texts \<and> set (skipped r) \<subseteq> skipped_texts)"

definition entries :: "PerfOptimizationResult \<Rightarrow> nat" where
  "entries r = length (applied r) + length (skipped r) + length (errors r)"

text \<open>Whether a file can be read.\<close>

definition readable :: "node \<Rightarrow> rpath \<Rightarrow> bool" where
  "readable fs p = (case readFile p fs of Inl _ \<Rightarrow> False | Inr _ \<Rightarrow> True)"

section \<open>lib/optimizer/audit.ts: the audit runner\<close>

abbreviation check_mark :: string where
  "check_mark \<equiv> [CHR 0xE2, CHR 0x9C, CHR 0x93]"

abbreviation warning_sign :: string where
  "warning_sign \<equiv> [CHR 0xE2, CHR 0x9A, CHR 0xA0, CHR 0xEF, CHR 0xB8, CHR 0x8F]"

text \<open>An integer inside a template literal.\<close>

definition show_int :: "int \<Rightarrow> string" where
  "show_int i = (if i < 0 then ''-'' @ show_nat (nat (- i)) else show_nat (nat i))"

datatype preset = Mobile | Desktop

definition preset_name :: "preset \<Rightarrow> string" where
  "preset_name p = (case p of Mobile \<Rightarrow> ''mobile'' | Desktop \<Rightarrow> ''desktop'')"

record LighthouseScore =
  performance :: int
  accessibility :: int
  bestPractices :: int
  seo :: int

record LighthouseMetrics =
  fcp :: "rat option"
  lcp :: "rat option"
  cls :: "rat option"
  tti :: "rat option"
  tbt :: "rat option"
  si :: "rat option"

record LighthouseResult =
  url :: string
  device :: preset
  scores :: LighthouseScore
  metrics :: LighthouseMetrics
  timestamp :: string

text \<open>
  The parsed report of the scoring tool, as far as \<^verbatim>\<open>runLighthouse\<close> reads it: the
  \<^verbatim>\<open>score\<close> of the four categories and the \<^verbatim>\<open>numericValue\<close> of six audits, each \<open>None\<close>
  when the entry or the number is missing. \<open>categories\<close> or \<open>audits\<close> is \<open>None\<close> when the
  report has no such object, and reading a member of it throws.
\<close>

record lh_categories =
  cat_performance :: "rat option"
  cat_accessibility :: "rat option"
  cat_best_practices :: "rat option"
  cat_seo :: "rat option"

record lh_json =
  categories :: "lh_categories option"
  audits :: "LighthouseMetrics option"

text \<open>
  What one call of \<^verbatim>\<open>runLighthouse\<close> meets outside the program: the message of the error
  when making the reports directory throws, the message when the tool exits with an error
  or runs into the two-minute timeout, the message when reading or parsing the output
  throws or else the parsed report, and the clock. A score is a floating-point number,
  written here as the rational it denotes; \<open>round_percent\<close> is \<^verbatim>\<open>Math.round(x * 100)\<close> in
  the floating-point arithmetic of the runtime.
\<close>

record lh_world =
  lh_mkdir :: "string option"
  lh_exec :: "string option"
  lh_output :: "string + lh_json"
  lh_timestamp :: string
  round_percent :: "rat \<Rightarrow> int"

text \<open>
  \<^verbatim>\<open>Math.round((score || 0) * 100)\<close>: a score that is missing or zero gives \<open>0\<close>, any other
  is rounded by the runtime.
\<close>

definition score_percent :: "lh_world \<Rightarrow> rat option \<Rightarrow> int" where
  "score_percent L s =
     (case s of None \<Rightarrow> 0 | Some q \<Rightarrow> if q = 0 then 0 else round_percent L q)"

definition zero_scores :: LighthouseScore where
  "zero_scores = \<lparr>performance = 0, accessibility = 0, bestPractices = 0, seo = 0\<rparr>"

definition no_metrics :: LighthouseMetrics where
  "no_metrics = \<lparr>fcp = None, lcp = None, cls = None, tti = None, tbt = None, si = None\<rparr>"

text \<open>The object of the \<^verbatim>\<open>catch\<close> branch of \<^verbatim>\<open>runLighthouse\<close>.\<close>

definition default_result :: "string \<Rightarrow> preset \<Rightarrow> lh_world \<Rightarrow> LighthouseResult" where
  "default_result u p L =
     \<lparr>url = u, device = p, scores = zero_scores, metrics = no_metrics,
      timestamp = lh_timestamp L\<rparr>"

text \<open>The \<^verbatim>\<open>try\<close> block: the result, or the message of what was thrown.\<close>

definition lighthouse_try :: "string \<Rightarrow> preset \<Rightarrow> lh_world \<Rightarrow> string + LighthouseResult" where
  "lighthouse_try u p L =
     (case lh_mkdir L of
        Some m \<Rightarrow> Inl m
      | None \<Rightarrow>
          (case lh_exec L of
             Some m \<Rightarrow> Inl m
           | None \<Rightarrow>
               (case lh_output L of
                  Inl m \<Rightarrow> Inl m
                | Inr lhResult \<Rightarrow>
                    (case categories lhResult of
                       None \<Rightarrow> Inl ''Cannot read properties of undefined (reading 'performance')''
                     | Some c \<Rightarrow>
                         (case audits lhResult of
                            None \<Rightarrow>
                              Inl ''Cannot read properties of undefined (reading 'first-contentful-paint')''
                          | Some a \<Rightarrow>
                              Inr \<lparr>url = u, device = p,
                                   scores =
                                     \<lparr>performance = score_percent L (cat_performance c),
                                      accessibility = score_percent L (cat_accessibility c),
                                      bestPractices = score_percent L (cat_best_practices c),
                                      seo = score_percent L (cat_seo c)\<rparr>,
                                   metrics = a,
                                   timestamp = lh_timestamp L\<rparr>)))))"

text \<open>How \<^verbatim>\<open>console.log\<close> prints the scores object.\<close>

definition show_scores :: "LighthouseScore \<Rightarrow> string" where
  "show_scores s =
     ''{ performance: '' @ show_int (performance s) @ '', accessibility: ''
       @ show_int (accessibility s) @ '', bestPractices: '' @ show_int (bestPractices s)
       @ '', seo: '' @ show_int (seo s) @ '' }''"

text \<open>\<^verbatim>\<open>runLighthouse\<close>: the result and the lines it prints.\<close>

definition runLighthouse ::
  "string \<Rightarrow> preset \<Rightarrow> lh_world \<Rightarrow> LighthouseResult \<times> string list" where
  "runLighthouse u p L =
     (case lighthouse_try u p L of
        Inr result \<Rightarrow>
          (result,
           (if lh_mkdir L = None
            then [''Lancement de Lighthouse ('' @ preset_name p @ '') pour '' @ u @ ''...'']
            else [])
           @ [check_mark @ '' Lighthouse '' @ preset_name p @ '' termin'' @ e_acute
                @ '' - Scores: '' @ show_scores (scores result)])
      | Inl m \<Rightarrow>
          (default_result u p L,
           (if lh_mkdir L = None
            then [''Lancement de Lighthouse ('' @ preset_name p @ '') pour '' @ u @ ''...'']
            else [])
           @ [''Erreur lors de l'audit Lighthouse ('' @ preset_name p @ ''): '' @ m]))"

definition compareAudits :: "LighthouseResult \<Rightarrow> LighthouseResult \<Rightarrow> (string \<times> int) list" where
  "compareAudits before after =
     [(''performance'', performance (scores after) - performance (scores before)),
      (''accessibility'', accessibility (scores after) - accessibility (scores before)),
      (''bestPractices'', bestPractices (scores after) - bestPractices (scores before)),
      (''seo'', seo (scores after) - seo (scores before))]"

text \<open>
  The summary of \<^verbatim>\<open>analyzeBundles\<close>, which never throws; the pipeline takes it as the
  environment gives it.
\<close>

record BundleAnalysis =
  totalSize :: nat
  files :: "(string \<times> nat \<times> rat) list"
  largestFiles :: "(string \<times> nat) list"

section \<open>lib/optimizer/index.ts: the pipeline\<close>

text \<open>
  The decrypted connection. The source reads it as an untyped object: a field that is
  absent is \<open>None\<close>, and prints as \<^verbatim>\<open>undefined\<close> inside a template literal. The pipeline
  never reads \<open>password\<close>, \<open>privateKey\<close> and \<open>passphrase\<close>.
\<close>

record ConnectionData =
  conn_type :: "string option"
  repoUrl :: "string option"
  conn_branch :: "string option"
  username :: "string option"
  host :: "string option"
  remotePath :: "string option"
  password :: "string option"
  privateKey :: "string option"
  passphrase :: "string option"

definition tpl :: "string option \<Rightarrow> string" where
  "tpl x = (case x of None \<Rightarrow> ''undefined'' | Some s \<Rightarrow> s)"

text \<open>\<^verbatim>\<open>x || d\<close> for a string or absent \<open>x\<close>.\<close>

definition or_default :: "string option \<Rightarrow> string \<Rightarrow> string" where
  "or_default x d = (case x of None \<Rightarrow> d | Some s \<Rightarrow> if s = [] then d else s)"

text \<open>The thresholds are taken to be whole numbers, as the scores are.\<close>

record OptimizationConfig =
  connectionId :: string
  connectionData :: ConnectionData
  siteUrl :: string
  lighthouseMinScores :: LighthouseScore
  optimizeBranch :: string
  preferPr :: bool
  constraints :: "string option"
  allowedHosts :: "string list"

record report_lighthouse =
  before :: "LighthouseResult option"
  after :: "LighthouseResult option"
  mobile :: "LighthouseResult option"

text \<open>\<open>diffs\<close> keeps the entries of the object in the order they were written.\<close>

record OptimizationReport =
  success :: bool
  workDir :: string
  branch :: string
  prUrl :: "string option"
  lighthouse :: report_lighthouse
  bundles :: "BundleAnalysis option"
  perf :: PerfOptimizationResult
  seo :: SeoOptimizationResult
  diffs :: "(string \<times> int) list"
  errors :: "string list"
  warnings :: "string list"

text \<open>The commands the pipeline hands to \<^verbatim>\<open>execAsync\<close>, with the parts it fills in.\<close>

datatype command =
    GitClone string string string
  | ScpCopy string string string string
  | GitCheckoutNew string
  | InstallDeps string
  | NpmRunLint
  | Prettier
  | NpmAudit
  | NpmRunBuild
  | GitAddAll
  | GitCommit string
  | GitPush string
  | GhPrCreate string

text \<open>The command lines of the source fetch, as the source writes them.\<close>

definition clone_command_line :: "string \<Rightarrow> string \<Rightarrow> string \<Rightarrow> string" where
  \<open>clone_command_line b u d =
     ''git clone --depth 1 --branch '' @ b @ '' "'' @ u @ ''" "'' @ d @ ''"''\<close>

definition scp_command_line :: "string \<Rightarrow> string \<Rightarrow> string \<Rightarrow> string \<Rightarrow> string" where
  \<open>scp_command_line user h rp d =
     ''scp -r '' @ user @ ''@'' @ h @ '':'' @ rp @ ''/* "'' @ d @ ''/"''\<close>

text \<open>
  The texts generated from the report and the reading of the output of \<^verbatim>\<open>npm audit\<close> are
  taken as given: the commit message (from the two counts of applied changes and the
  desktop result), the body of the pull request, and the number of high vulnerabilities
  (\<open>None\<close> when parsing throws or the number is absent).
\<close>

record report_texts =
  commitMessageText :: "nat \<Rightarrow> nat \<Rightarrow> LighthouseResult option \<Rightarrow> string"
  prBodyText :: "OptimizationReport \<Rightarrow> string"
  auditHigh :: "string \<Rightarrow> int option"

text \<open>
  What a run meets outside the program. \<open>path_join\<close> is \<^verbatim>\<open>path.join\<close> of the runtime, which
  joins its arguments with a separator and normalises the result. \<open>exec\<close> answers a command
  with the message of the error when it fails or runs into its timeout, or else with its
  standard output;
  \<open>after_exec\<close> is what the command leaves of the working tree. \<open>lighthouse_world\<close> is the
  environment of the first, second and third call of \<^verbatim>\<open>runLighthouse\<close>.
\<close>

record world =
  tmpdir :: string
  path_join :: "string \<Rightarrow> string \<Rightarrow> string"
  now :: nat
  mkdir_workDir :: "string option"
  exec :: "command \<Rightarrow> string + string"
  after_exec :: "command \<Rightarrow> node \<Rightarrow> node"
  lighthouse_world :: "nat \<Rightarrow> lh_world"
  bundles_result :: BundleAnalysis

text \<open>
  The state of a run: the report, the lines the orchestrator and the audit runner print,
  the commands executed so far, oldest first, and the working tree.
\<close>

record pstate =
  report :: OptimizationReport
  logs :: "string list"
  commands :: "command list"
  tree :: node

definition console_log :: "string \<Rightarrow> pstate \<Rightarrow> pstate" where
  "console_log line s = s\<lparr>logs := logs s @ [line]\<rparr>"

definition warn :: "string \<Rightarrow> pstate \<Rightarrow> pstate" where
  "warn w s = s\<lparr>report := (report s)\<lparr>warnings := warnings (report s) @ [w]\<rparr>\<rparr>"

definition execAsync :: "world \<Rightarrow> command \<Rightarrow> pstate \<Rightarrow> (string + string) \<times> pstate" where
  "execAsync W c s =
     (exec W c, s\<lparr>commands := commands s @ [c], tree := after_exec W c (tree s)\<rparr>)"

text \<open>\<^verbatim>\<open>`${error}`\<close> for an \<^verbatim>\<open>Error\<close> with the given message.\<close>

definition error_to_string :: "string \<Rightarrow> string" where
  "error_to_string m = (if m = [] then ''Error'' else ''Error: '' @ m)"

definition initial_report :: "OptimizationConfig \<Rightarrow> OptimizationReport" where
  "initial_report config =
     \<lparr>success = False, workDir = [], branch = optimizeBranch config, prUrl = None,
      lighthouse = \<lparr>before = None, after = None, mobile = None\<rparr>,
      bundles = None, perf = empty_result, seo = empty_result, diffs = [],
      errors = [], warnings = []\<rparr>"

definition initial_state :: "OptimizationConfig \<Rightarrow> pstate" where
  "initial_state config =
     \<lparr>report = initial_report config,
      logs = [[CHR 0xF0, CHR 0x9F, CHR 0x9A, CHR 0x80] @ '' D'' @ e_acute
                @ ''marrage du pipeline d'optimisation...''],
      commands = [], tree = Dir []\<rparr>"

definition prepareWorkingDirectory ::
  "world \<Rightarrow> OptimizationConfig \<Rightarrow> pstate \<Rightarrow> (string + string) \<times> pstate" where
  "prepareWorkingDirectory W config s =
     (let dir = path_join W (tmpdir W)
                  (''workdir-'' @ connectionId config @ ''-'' @ show_nat (now W))
      in case mkdir_workDir W of
           Some m \<Rightarrow> (Inl m, s)
         | None \<Rightarrow>
             (Inr dir,
              console_log ([CHR 0xF0, CHR 0x9F, CHR 0x93, CHR 0x81] @ '' R'' @ e_acute
                     @ ''pertoire de travail: '' @ dir) s))"

text \<open>\<^verbatim>\<open>fetchSources\<close>: \<open>Some\<close> the message when it throws.\<close>

definition fetchSources ::
  "world \<Rightarrow> OptimizationConfig \<Rightarrow> string \<Rightarrow> pstate \<Rightarrow> string option \<times> pstate" where
  "fetchSources W config dir s =
     (let cd = connectionData config
      in if conn_type cd = Some ''git''
         then (let s1 = console_log ([CHR 0xF0, CHR 0x9F, CHR 0x94, CHR 0x84] @ '' Clonage du d''
                              @ e_acute @ ''p'' @ o_circ @ ''t Git: '' @ tpl (repoUrl cd)) s;
                   b = or_default (conn_branch cd) ''main''
               in case execAsync W (GitClone b (tpl (repoUrl cd)) dir) s1 of
                    (Inl m, s2) \<Rightarrow> (Some m, s2)
                  | (Inr out, s2) \<Rightarrow> (None, s2))
         else if conn_type cd = Some ''ssh'' \<or> conn_type cd = Some ''sftp''
         then (let s1 = console_log ([CHR 0xF0, CHR 0x9F, CHR 0x93, CHR 0xA5] @ '' T'' @ e_acute
                              @ ''l'' @ e_acute @ ''chargement des sources via ''
                              @ (if conn_type cd = Some ''ssh'' then ''SSH'' else ''SFTP'')
                              @ ''...'') s;
                   rp = or_default (remotePath cd) ''/var/www/html''
               in case execAsync W (ScpCopy (tpl (username cd)) (tpl (host cd)) rp dir) s1 of
                    (Inl m, s2) \<Rightarrow>
                      (Some (E_acute @ ''chec du t'' @ e_acute @ ''l'' @ e_acute
                               @ ''chargement SSH/SFTP: '' @ error_to_string m), s2)
                  | (Inr out, s2) \<Rightarrow> (None, s2))
         else (Some (''Type de connexion non support'' @ e_acute @ '': '' @ tpl (conn_type cd)),
               s))"

definition createOptimizationBranch :: "world \<Rightarrow> string \<Rightarrow> pstate \<Rightarrow> pstate" where
  "createOptimizationBranch W branchName s =
     (case execAsync W (GitCheckoutNew branchName) s of
        (Inr out, s1) \<Rightarrow>
          console_log ([CHR 0xF0, CHR 0x9F, CHR 0x8C, CHR 0xBF] @ '' Branche cr'' @ e_acute @ e_acute
                 @ ''e: '' @ branchName) s1
      | (Inl m, s1) \<Rightarrow>
          console_log (warning_sign @ ''  Branche existe d'' @ e_acute @ ''j'' @ a_grave
                 @ '' ou pas de git repo, continuation...'') s1)"

definition installDependencies :: "world \<Rightarrow> pstate \<Rightarrow> pstate" where
  "installDependencies W s =
     (let s1 = console_log ([CHR 0xF0, CHR 0x9F, CHR 0x93, CHR 0xA6] @ '' Installation des d''
                      @ e_acute @ ''pendances...'') s
      in if \<not> fileExists [''package.json''] (tree s1)
         then console_log (warning_sign @ ''  package.json non trouv'' @ e_acute @ '', skip install'') s1
         else (let hasLockfile = fileExists [''package-lock.json''] (tree s1);
                   hasPnpmLock = fileExists [''pnpm-lock.yaml''] (tree s1);
                   hasYarnLock = fileExists [''yarn.lock''] (tree s1);
                   installCmd = (if hasPnpmLock then ''pnpm install''
                                 else if hasYarnLock then ''yarn install''
                                 else ''npm install'')
               in case execAsync W (InstallDeps installCmd) s1 of
                    (Inr out, s2) \<Rightarrow>
                      console_log (check_mark @ '' D'' @ e_acute @ ''pendances install'' @ e_acute
                             @ ''es'') s2
                  | (Inl m, s2) \<Rightarrow>
                      console_log (warning_sign @ ''  Erreur installation d'' @ e_acute
                             @ ''pendances: '' @ m) s2))"

definition runQualityChecks :: "world \<Rightarrow> report_texts \<Rightarrow> pstate \<Rightarrow> pstate" where
  "runQualityChecks W P s =
     (let s1 = console_log ([CHR 0xF0, CHR 0x9F, CHR 0x94, CHR 0x8D] @ '' V'' @ e_acute
                      @ ''rifications qualit'' @ e_acute @ ''...'') s;
          s2 = (case execAsync W NpmRunLint s1 of
                  (Inr out, t) \<Rightarrow> console_log (check_mark @ '' ESLint OK'') t
                | (Inl m, t) \<Rightarrow>
                    warn (''ESLint a d'' @ e_acute @ ''tect'' @ e_acute
                            @ '' des erreurs (non bloquant)'') t);
          s3 = (case execAsync W Prettier s2 of
                  (Inr out, t) \<Rightarrow> console_log (check_mark @ '' Prettier OK'') t
                | (Inl m, t) \<Rightarrow> t)
      in case execAsync W NpmAudit s3 of
           (Inr out, t) \<Rightarrow>
             (case auditHigh P out of
                Some n \<Rightarrow>
                  if n > 0
                  then warn (''npm audit: '' @ show_int n @ '' vuln'' @ e_acute
                               @ ''rabilit'' @ e_acute @ ''s '' @ e_acute @ ''lev'' @ e_acute
                               @ ''es'') t
                  else t
              | None \<Rightarrow> t)
         | (Inl m, t) \<Rightarrow> t)"

text \<open>\<^verbatim>\<open>buildProject\<close>: \<open>Some\<close> the message when it throws.\<close>

definition buildProject :: "world \<Rightarrow> pstate \<Rightarrow> string option \<times> pstate" where
  "buildProject W s =
     (let s1 = console_log ([CHR 0xF0, CHR 0x9F, CHR 0x94, CHR 0xA8] @ '' Build du projet...'') s
      in case execAsync W NpmRunBuild s1 of
           (Inr out, s2) \<Rightarrow> (None, console_log (check_mark @ '' Build r'' @ e_acute @ ''ussi'') s2)
         | (Inl m, s2) \<Rightarrow>
             (let message = ''Build '' @ e_acute @ ''chou'' @ e_acute @ '': '' @ m
              in (Some message,
                  s2\<lparr>report := (report s2)\<lparr>errors := errors (report s2) @ [message]\<rparr>\<rparr>)))"

definition validateScores :: "OptimizationConfig \<Rightarrow> pstate \<Rightarrow> pstate" where
  "validateScores config s =
     (case after (lighthouse (report s)) of
        None \<Rightarrow> s
      | Some a \<Rightarrow>
          (let sc = scores a;
               mn = lighthouseMinScores config;
               s1 = (if performance sc < performance mn
                     then warn (''Performance '' @ show_int (performance sc) @ '' < ''
                                  @ show_int (performance mn)) s
                     else s);
               s2 = (if LighthouseScore.seo sc < LighthouseScore.seo mn
                     then warn (''SEO '' @ show_int (LighthouseScore.seo sc) @ '' < ''
                                  @ show_int (LighthouseScore.seo mn)) s1
                     else s1);
               s3 = (if accessibility sc < accessibility mn
                     then warn (''Accessibilit'' @ e_acute @ '' '' @ show_int (accessibility sc)
                                  @ '' < '' @ show_int (accessibility mn)) s2
                     else s2)
           in if bestPractices sc < bestPractices mn
              then warn (''Best Practices '' @ show_int (bestPractices sc) @ '' < ''
                           @ show_int (bestPractices mn)) s3
              else s3))"

definition commit_failed :: "string \<Rightarrow> pstate \<Rightarrow> pstate" where
  "commit_failed m s =
     warn (''Commit/push a '' @ e_acute @ ''chou'' @ e_acute)
       (console_log (warning_sign @ ''  Erreur lors du commit/push: '' @ m) s)"

definition commitChanges ::
  "world \<Rightarrow> report_texts \<Rightarrow> OptimizationConfig \<Rightarrow> pstate \<Rightarrow> pstate" where
  "commitChanges W P config s =
     (let s1 = console_log ([CHR 0xF0, CHR 0x9F, CHR 0x92, CHR 0xBE] @ '' Commit des changements...'') s
      in case execAsync W GitAddAll s1 of
           (Inl m, s2) \<Rightarrow> commit_failed m s2
         | (Inr out, s2) \<Rightarrow>
             (let commitMessage =
                    commitMessageText P (length (applied (perf (report s2))))
                      (length (applied (OptimizationReport.seo (report s2))))
                      (after (lighthouse (report s2)))
              in case execAsync W (GitCommit commitMessage) s2 of
                   (Inl m, s3) \<Rightarrow> commit_failed m s3
                 | (Inr out, s3) \<Rightarrow>
                     (let s4 = console_log (check_mark @ '' Changements commit'' @ e_acute @ ''s'') s3
                      in case execAsync W (GitPush (optimizeBranch config)) s4 of
                           (Inl m, s5) \<Rightarrow> commit_failed m s5
                         | (Inr out, s5) \<Rightarrow>
                             console_log (check_mark @ '' Changements pouss'' @ e_acute @ ''s'') s5)))"

text \<open>\<^verbatim>\<open>String.prototype.trim\<close>, on ASCII white space.\<close>

definition is_space :: "char \<Rightarrow> bool" where
  "is_space c = (c \<in> set [CHR '' '', CHR 0x09, CHR 0x0A, CHR 0x0B, CHR 0x0C, CHR 0x0D])"

definition trim :: "string \<Rightarrow> string" where
  "trim s = rev (dropWhile is_space (rev (dropWhile is_space s)))"

text \<open>\<^verbatim>\<open>createPullRequest\<close>, with the assignment of its result to \<^verbatim>\<open>report.prUrl\<close>.\<close>

definition createPullRequest ::
  "world \<Rightarrow> report_texts \<Rightarrow> OptimizationConfig \<Rightarrow> pstate \<Rightarrow> pstate" where
  "createPullRequest W P config s =
     (let s1 = console_log ([CHR 0xF0, CHR 0x9F, CHR 0x94, CHR 0x80] @ '' Cr'' @ e_acute
                      @ ''ation de la Pull Request...'') s
      in case execAsync W (GhPrCreate (prBodyText P (report s1))) s1 of
           (Inr out, s2) \<Rightarrow>
             (let s3 = console_log (check_mark @ '' PR cr'' @ e_acute @ e_acute @ ''e: '' @ trim out) s2
              in s3\<lparr>report := (report s3)\<lparr>prUrl := Some (trim out)\<rparr>\<rparr>)
         | (Inl m, s2) \<Rightarrow>
             (let s3 = warn (''Cr'' @ e_acute @ ''er manuellement la PR depuis la branche ''
                               @ optimizeBranch config)
                         (console_log (warning_sign @ ''  Impossible de cr'' @ e_acute
                                 @ ''er la PR automatiquement: '' @ m) s2)
              in s3\<lparr>report := (report s3)\<lparr>prUrl := None\<rparr>\<rparr>))"

text \<open>Stage 3: the audit before the changes, of the live site.\<close>

definition audit_before :: "world \<Rightarrow> OptimizationConfig \<Rightarrow> pstate \<Rightarrow> pstate" where
  "audit_before W config s =
     (let s1 = console_log ([CHR 0xF0, CHR 0x9F, CHR 0x93, CHR 0x8A]
                              @ '' Audit avant optimisation...'') s;
          (r, printed) = runLighthouse (siteUrl config) Desktop (lighthouse_world W 0)
      in s1\<lparr>report := (report s1)\<lparr>lighthouse := (lighthouse (report s1))\<lparr>before := Some r\<rparr>\<rparr>,
            logs := logs s1 @ printed\<rparr>)"

text \<open>Stages 6 and 7: the two patch sets, on the working tree.\<close>

definition apply_patches :: "text_ops \<Rightarrow> OptimizationConfig \<Rightarrow> pstate \<Rightarrow> pstate" where
  "apply_patches T config s =
     (let (fs1, p) = applyPerfOptimizations T (tree s);
          (fs2, q) = applySeoOptimizations T (siteUrl config) fs1
      in s\<lparr>tree := fs2, report := (report s)\<lparr>perf := p, seo := q\<rparr>\<rparr>)"

text \<open>Stage 12: the differences, when both snapshots are there.\<close>

definition compute_diffs :: "pstate \<Rightarrow> pstate" where
  "compute_diffs s =
     (case before (lighthouse (report s)) of
        None \<Rightarrow> s
      | Some b \<Rightarrow>
          (case after (lighthouse (report s)) of
             None \<Rightarrow> s
           | Some a \<Rightarrow>
               s\<lparr>report := (report s)
                 \<lparr>diffs :=
                    [(''performance'', performance (scores a) - performance (scores b)),
                     (''accessibility'', accessibility (scores a) - accessibility (scores b)),
                     (''bestPractices'', bestPractices (scores a) - bestPractices (scores b)),
                     (''seo'', LighthouseScore.seo (scores a) - LighthouseScore.seo (scores b))]\<rparr>\<rparr>))"

text \<open>Stages 10 and 11: the bundle summary and the two audits after the changes.\<close>

definition audit_after :: "world \<Rightarrow> OptimizationConfig \<Rightarrow> pstate \<Rightarrow> pstate" where
  "audit_after W config s =
     (let s1 = s\<lparr>report := (report s)\<lparr>bundles := Some (bundles_result W)\<rparr>\<rparr>;
          s2 = console_log ([CHR 0xF0, CHR 0x9F, CHR 0x93, CHR 0x8A]
                              @ '' Audit apr'' @ [CHR 0xC3, CHR 0xA8] @ ''s optimisation...'') s1;
          (a, printed_a) = runLighthouse (siteUrl config) Desktop (lighthouse_world W 1);
          (m, printed_m) = runLighthouse (siteUrl config) Mobile (lighthouse_world W 2)
      in s2\<lparr>report := (report s2)
               \<lparr>lighthouse := (lighthouse (report s2))\<lparr>after := Some a, mobile := Some m\<rparr>\<rparr>,
            logs := logs s2 @ printed_a @ printed_m\<rparr>)"

text \<open>Stages 14 and 15: commit and push, then the pull request when it is asked for.\<close>

definition publish ::
  "world \<Rightarrow> report_texts \<Rightarrow> OptimizationConfig \<Rightarrow> pstate \<Rightarrow> pstate" where
  "publish W P config s =
     (let s1 = commitChanges W P config s
      in if preferPr config then createPullRequest W P config s1 else s1)"

text \<open>The end of the \<^verbatim>\<open>try\<close> block.\<close>

definition mark_success :: "pstate \<Rightarrow> pstate" where
  "mark_success s =
     console_log ([CHR 0xE2, CHR 0x9C, CHR 0x85] @ '' Pipeline d'optimisation termin''
                    @ e_acute @ '' avec succ'' @ [CHR 0xC3, CHR 0xA8] @ ''s'')
       (s\<lparr>report := (report s)\<lparr>success := True\<rparr>\<rparr>)"

text \<open>Stages 10 to 15, in the order of the source.\<close>

definition finish_run ::
  "world \<Rightarrow> report_texts \<Rightarrow> OptimizationConfig \<Rightarrow> pstate \<Rightarrow> pstate" where
  "finish_run W P config s =
     (let s3 = audit_after W config s;
          s4 = compute_diffs s3;
          s5 = validateScores config s4;
          s7 = publish W P config s5
      in mark_success s7)"

text \<open>The \<^verbatim>\<open>try\<close> block of \<^verbatim>\<open>runOptimizationPipeline\<close>: \<open>Some\<close> the message when a stage throws.\<close>

definition pipeline_try ::
  "world \<Rightarrow> text_ops \<Rightarrow> report_texts \<Rightarrow> OptimizationConfig \<Rightarrow> pstate \<Rightarrow> string option \<times> pstate"
  where
  "pipeline_try W T P config s0 =
     (case prepareWorkingDirectory W config s0 of
        (Inl m, s1) \<Rightarrow> (Some m, s1)
      | (Inr dir, s1) \<Rightarrow>
          (let s2 = s1\<lparr>report := (report s1)\<lparr>workDir := dir\<rparr>\<rparr>
           in case fetchSources W config dir s2 of
                (Some m, s3) \<Rightarrow> (Some m, s3)
              | (None, s3) \<Rightarrow>
                  (let s4 = audit_before W config s3;
                       s5 = createOptimizationBranch W (optimizeBranch config) s4;
                       s6 = installDependencies W s5;
                       s7 = apply_patches T config s6;
                       s8 = runQualityChecks W P s7
                   in case buildProject W s8 of
                        (Some m, s9) \<Rightarrow> (Some m, s9)
                      | (None, s9) \<Rightarrow> (None, finish_run W P config s9))))"

text \<open>The \<^verbatim>\<open>catch\<close> block of \<^verbatim>\<open>runOptimizationPipeline\<close>, on the state in which a stage threw.\<close>

definition caught :: "string \<Rightarrow> pstate \<Rightarrow> pstate" where
  "caught m s =
     (let s1 = console_log ([CHR 0xE2, CHR 0x9D, CHR 0x8C] @ '' Erreur lors du pipeline: ''
                              @ m) s
      in s1\<lparr>report := (report s1)\<lparr>errors := errors (report s1) @ [m], success := False\<rparr>\<rparr>)"

text \<open>
  \<^verbatim>\<open>runOptimizationPipeline\<close>: the \<^verbatim>\<open>try\<close> block and its \<^verbatim>\<open>catch\<close>. The report returned is
  the \<open>report\<close> of the final state.
\<close>

definition runOptimizationPipeline ::
  "world \<Rightarrow> text_ops \<Rightarrow> report_texts \<Rightarrow> OptimizationConfig \<Rightarrow> pstate" where
  "runOptimizationPipeline W T P config =
     (case pipeline_try W T P config (initial_state config) of
        (None, s) \<Rightarrow> s
      | (Some m, s) \<Rightarrow> caught m s)"

text \<open>The name of the working directory of a run.\<close>

definition workDir_of :: "world \<Rightarrow> OptimizationConfig \<Rightarrow> string" where
  "workDir_of W config =
     path_join W (tmpdir W) (''workdir-'' @ connectionId config @ ''-'' @ show_nat (now W))"

text \<open>What the fetch of the sources throws, if anything.\<close>

definition fetch_error :: "world \<Rightarrow> OptimizationConfig \<Rightarrow> string option" where
  "fetch_error W config =
     fst (fetchSources W config (workDir_of W config) (initial_state config))"

text \<open>What the build throws, if anything.\<close>

definition build_error :: "world \<Rightarrow> string option" where
  "build_error W =
     (case exec W NpmRunBuild of
        Inl m \<Rightarrow> Some (''Build '' @ e_acute @ ''chou'' @ e_acute @ '': '' @ m)
      | Inr out \<Rightarrow> None)"

text \<open>
  The state of a run when the working directory is there, after the fetch, before the
  build and after it.
\<close>

definition state_prepared :: "world \<Rightarrow> OptimizationConfig \<Rightarrow> pstate" where
  "state_prepared W config =
     (let s1 = snd (prepareWorkingDirectory W config (initial_state config))
      in s1\<lparr>report := (report s1)\<lparr>workDir := workDir_of W config\<rparr>\<rparr>)"

definition state_fetched :: "world \<Rightarrow> OptimizationConfig \<Rightarrow> pstate" where
  "state_fetched W config =
     snd (fetchSources W config (workDir_of W config) (state_prepared W config))"

definition state_checked ::
  "world \<Rightarrow> text_ops \<Rightarrow> report_texts \<Rightarrow> OptimizationConfig \<Rightarrow> pstate" where
  "state_checked W T P config =
     runQualityChecks W P
       (apply_patches T config
          (installDependencies W
             (createOptimizationBranch W (optimizeBranch config)
                (audit_before W config (state_fetched W config)))))"

definition state_built ::
  "world \<Rightarrow> text_ops \<Rightarrow> report_texts \<Rightarrow> OptimizationConfig \<Rightarrow> pstate" where
  "state_built W T P config = snd (buildProject W (state_checked W T P config))"

definition is_commit :: "command \<Rightarrow> bool" where
  "is_commit c = (case c of GitCommit m \<Rightarrow> True | _ \<Rightarrow> False)"

section \<open>Sample inputs\<close>

definition sample_ops :: text_ops where
  "sample_ops =
     \<lparr>insertNextConfig = (\<lambda>c. c), imageLoadingLazy = (\<lambda>c. c), imageDecodingAsync = (\<lambda>c. c),
      fontDisplaySwap = (\<lambda>c. c), middlewareSource = ''middleware'',
      parsePackageJson = (\<lambda>c. Inr False), addAnalyzeScript = (\<lambda>c. c),
      insertMetadata = (\<lambda>u c. c), robotsTxtSource = (\<lambda>u. ''Sitemap: '' @ u @ ''/sitemap.xml''),
      sitemapSource = (\<lambda>u. u), structuredDataSource = (\<lambda>u. u),
      insertCanonical = (\<lambda>u p c. c), countMissingAlt = (\<lambda>c. 0)\<rparr>"

definition sample_texts :: report_texts where
  "sample_texts =
     \<lparr>commitMessageText = (\<lambda>p q a. ''chore: optimisations perf + SEO''),
      prBodyText = (\<lambda>r. ''Optimisations automatiques Perf + SEO''),
      auditHigh = (\<lambda>out. None)\<rparr>"

definition audit_down :: lh_world where
  "audit_down =
     \<lparr>lh_mkdir = None, lh_exec = Some ''Command failed: npx lighthouse'',
      lh_output = Inl ''ENOENT'', lh_timestamp = ''2024-01-01T00:00:00.000Z'',
      round_percent = (\<lambda>q. \<lfloor>q * 100 + 1 / 2\<rfloor>)\<rparr>"

definition sample_world :: world where
  "sample_world =
     \<lparr>tmpdir = ''/tmp'', path_join = (\<lambda>a b. a @ ''/'' @ b), now = 7, mkdir_workDir = None,
      exec = (\<lambda>c. Inr []), after_exec = (\<lambda>c fs. fs),
      lighthouse_world = (\<lambda>n. audit_down),
      bundles_result = \<lparr>totalSize = 0, files = [], largestFiles = []\<rparr>\<rparr>"

definition git_connection :: "string \<Rightarrow> ConnectionData" where
  "git_connection u =
     \<lparr>conn_type = Some ''git'', repoUrl = Some u, conn_branch = Some ''main'',
      username = None, host = None, remotePath = None,
      password = None, privateKey = None, passphrase = None\<rparr>"

definition sample_config :: "string \<Rightarrow> OptimizationConfig" where
  "sample_config u =
     \<lparr>connectionId = ''conn_1'', connectionData = git_connection u,
      siteUrl = ''https://www.example.com'',
      lighthouseMinScores = zero_scores,
      optimizeBranch = ''chore/optimize-auto'', preferPr = False, constraints = None,
      allowedHosts = [''github.com'']\<rparr>"

text \<open>A world in which the linter fails and everything else succeeds.\<close>

definition lint_failing_world :: world where
  "lint_failing_world =
     sample_world\<lparr>exec := (\<lambda>c. if c = NpmRunLint then Inl ''lint failed'' else Inr [])\<rparr>"

text \<open>A world in which the build fails.\<close>

definition build_failing_world :: world where
  "build_failing_world =
     sample_world\<lparr>exec := (\<lambda>c. if c = NpmRunBuild then Inl ''exit code 1'' else Inr [])\<rparr>"

text \<open>
  A world in which the clone fails. The message is the one \<^verbatim>\<open>exec\<close> of Node's
  \<^verbatim>\<open>child_process\<close> gives to the error of a failed command: \<^verbatim>\<open>Command failed:\<close>, the command
  line, a line break and the standard error output.
\<close>

definition clone_failing_world :: world where
  "clone_failing_world =
     sample_world
       \<lparr>exec := (\<lambda>c. case c of
                  GitClone b u d \<Rightarrow>
                    Inl (''Command failed: '' @ clone_command_line b u d @ [CHR 0x0A]
                           @ ''fatal: repository not found'')
                | _ \<Rightarrow> Inr [])\<rparr>"

text \<open>A world in which both audits and the build succeed, with the scores given.\<close>

definition audit_up :: "rat \<Rightarrow> lh_world" where
  "audit_up q =
     \<lparr>lh_mkdir = None, lh_exec = None,
      lh_output = Inr \<lparr>categories = Some \<lparr>cat_performance = Some q, cat_accessibility = Some 1,
                                   cat_best_practices = None, cat_seo = Some (9 / 10)\<rparr>,
                       audits = Some no_metrics\<rparr>,
      lh_timestamp = ''2024-01-01T00:00:00.000Z'',
      round_percent = (\<lambda>q. \<lfloor>q * 100 + 1 / 2\<rfloor>)\<rparr>"

definition scored_world :: world where
  "scored_world =
     sample_world\<lparr>lighthouse_world := (\<lambda>n. if n = 0 then audit_up (1 / 2) else audit_up (4 / 5))\<rparr>"

text \<open>A world in which the working directory cannot be made.\<close>

definition no_disk_world :: world where
  "no_disk_world = sample_world\<lparr>mkdir_workDir := Some ''ENOSPC: no space left on device''\<rparr>"

text \<open>States whose working tree holds a manifest and the lockfiles named.\<close>

definition state_with_files :: "string list \<Rightarrow> pstate" where
  "state_with_files names =
     (initial_state (sample_config ''https://github.com/o/r.git''))
       \<lparr>tree := Dir (map (\<lambda>n. (n, File ReadWrite ''{}'')) names)\<rparr>"

section \<open>Properties of the host allow-list\<close>

lemma first_part_takeWhile: "first_part c s = takeWhile (\<lambda>x. x \<noteq> c) s"
proof (induction s)
  case Nil
  then show ?case by (simp add: first_part_def)
next
  case (Cons x xs)
  then show ?case by (cases "split_on c xs") (auto simp: first_part_def)
qed

lemma takeWhile_twice:
  "takeWhile P (takeWhile Q s) = takeWhile (\<lambda>x. Q x \<and> P x) s"
  by (induction s) auto

lemma normalizeHost_host_name: "normalizeHost lc h = host_name_of lc h"
  by (simp add: normalizeHost_def host_name_of_def first_part_takeWhile takeWhile_twice)

lemma endsWith_iff: "endsWith s t \<longleftrightarrow> (\<exists>pre. s = pre @ t)"
  by (simp add: endsWith_def suffix_def)

lemma plain_name_no_scheme: "plain_name s \<Longrightarrow> strip_scheme s = s"
proof -
  assume h: "plain_name s"
  have "\<not> prefix ''http://'' s"
  proof
    assume "prefix ''http://'' s"
    then obtain r where "s = ''http://'' @ r" by (auto simp: prefix_def)
    with h show False by (simp add: plain_name_def)
  qed
  moreover have "\<not> prefix ''https://'' s"
  proof
    assume "prefix ''https://'' s"
    then obtain r where "s = ''https://'' @ r" by (auto simp: prefix_def)
    with h show False by (simp add: plain_name_def)
  qed
  ultimately show ?thesis by (simp add: strip_scheme_def)
qed

lemma plain_name_takeWhile:
  "plain_name s \<Longrightarrow> takeWhile (\<lambda>c. c \<noteq> CHR ''/'' \<and> c \<noteq> CHR '':'') s = s"
  unfolding plain_name_def list_all_iff by (rule takeWhile_eq_all_conv [THEN iffD2])

lemma host_name_of_plain:
  assumes "plain_name (lc s)"
  shows "host_name_of lc s = lc s"
proof -
  from assms have "strip_scheme (lc s) = lc s" by (rule plain_name_no_scheme)
  then show ?thesis using assms by (simp only: host_name_of_def plain_name_takeWhile)
qed

text \<open>The normalised host never holds a path or port separator.\<close>

lemma host_name_of_is_plain: "plain_name (host_name_of lc h)"
  unfolding plain_name_def host_name_of_def list_all_iff
proof
  fix x
  assume "x \<in> set (takeWhile (\<lambda>c. c \<noteq> CHR ''/'' \<and> c \<noteq> CHR '':'') (strip_scheme (lc h)))"
  then show "x \<noteq> CHR ''/'' \<and> x \<noteq> CHR '':''"
    by (rule set_takeWhileD [THEN conjunct2])
qed

text \<open>
  So an allow-list entry that holds one, such as a host with its port, matches no host
  at all.
\<close>

lemma entry_with_separator_matches_nothing:
  assumes "\<not> plain_name (lc entry)"
  shows "\<not> host_matches lc (host_name_of lc h) entry"
proof
  assume "host_matches lc (host_name_of lc h) entry"
  then consider "host_name_of lc h = lc entry"
    | sub where "host_name_of lc h = sub @ ''.'' @ lc entry"
    by (auto simp: host_matches_def)
  then have "plain_name (lc entry)"
  proof cases
    case 1
    then show ?thesis using host_name_of_is_plain [of lc h] by simp
  next
    case 2
    then have "plain_name (sub @ ''.'' @ lc entry)"
      using host_name_of_is_plain [of lc h] by simp
    then show ?thesis by (simp add: plain_name_def)
  qed
  with assms show False by simp
qed

text \<open>Lowering ASCII letters works letter by letter and keeps the separators apart.\<close>

lemma ascii_lower_append: "ascii_lower (a @ b) = ascii_lower a @ ascii_lower b"
  by (simp add: ascii_lower_def)

lemma ascii_lower_dot:
  "ascii_lower (sub @ ''.'' @ entry) = ascii_lower sub @ ''.'' @ ascii_lower entry"
  by (simp add: ascii_lower_def ascii_lower_char_def)

lemma ascii_lower_char_cases:
  "ascii_lower_char c = c \<or> ascii_lower_char c \<in> set ''abcdefghijklmnopqrstuvwxyz''"
proof (cases "map_of (zip ''ABCDEFGHIJKLMNOPQRSTUVWXYZ'' ''abcdefghijklmnopqrstuvwxyz'') c")
  case None
  then show ?thesis by (simp add: ascii_lower_char_def)
next
  case (Some l)
  then have "(c, l) \<in> set (zip ''ABCDEFGHIJKLMNOPQRSTUVWXYZ'' ''abcdefghijklmnopqrstuvwxyz'')"
    by (rule map_of_SomeD)
  then have "l \<in> set ''abcdefghijklmnopqrstuvwxyz''"
    by (rule set_zip_rightD)
  with Some show ?thesis by (simp add: ascii_lower_char_def)
qed

lemma ascii_lower_char_plain:
  assumes "c \<noteq> CHR ''/'' \<and> c \<noteq> CHR '':''"
  shows "ascii_lower_char c \<noteq> CHR ''/'' \<and> ascii_lower_char c \<noteq> CHR '':''"
  using assms ascii_lower_char_cases [of c] by auto

lemma plain_name_ascii_lower: "plain_name s \<Longrightarrow> plain_name (ascii_lower s)"
proof (induction s)
  case Nil
  then show ?case by (simp add: plain_name_def ascii_lower_def)
next
  case (Cons c s)
  then have "c \<noteq> CHR ''/'' \<and> c \<noteq> CHR '':''" and "plain_name (ascii_lower s)"
    by (simp_all add: plain_name_def)
  then show ?case
    using ascii_lower_char_plain [of c] by (simp add: plain_name_def ascii_lower_def)
qed

text \<open>
  C9, as stated, fails: not every subdomain of a listed host is allowed. The host is cut
  before its port and path, the entries of the list are not; an entry that carries a port
  allows neither its subdomains nor itself. The strings are ASCII, on which
  \<^verbatim>\<open>toLowerCase\<close> is \<^const>\<open>ascii_lower\<close>.
\<close>

theorem entry_with_port_allows_no_host:
  "list_ex (\<lambda>a. a = ''localhost:3000'') [''localhost:3000'']
   \<and> \<not> isHostAllowed ascii_lower (''api'' @ ''.'' @ ''localhost:3000'') [''localhost:3000'']
   \<and> \<not> isHostAllowed ascii_lower ''localhost:3000'' [''localhost:3000'']"
  by code_simp

text \<open>
  C9, amended. Whatever \<^verbatim>\<open>toLowerCase\<close> does, \<^const>\<open>isHostAllowed\<close> holds exactly when the
  host, in lower case, without a leading \<^verbatim>\<open>http://\<close> or \<^verbatim>\<open>https://\<close> and cut before its path
  and port, equals an allow-list entry in lower case or ends with a dot followed by that
  entry. A subdomain of a listed entry is allowed when the entry and the label in lower
  case hold no \<^verbatim>\<open>/\<close> and no \<^verbatim>\<open>:\<close>, and lowering the joined name lowers its two parts, as it
  does for ASCII names.
\<close>

theorem isHostAllowed_spec:
  "isHostAllowed lc h allowed =
     list_ex (host_matches lc (host_name_of lc h)) allowed
   \<and> (list_ex (\<lambda>a. a = entry) allowed \<and> plain_name (lc entry) \<and> plain_name (lc sub)
        \<and> lc (sub @ ''.'' @ entry) = lc sub @ ''.'' @ lc entry
        \<longrightarrow> isHostAllowed lc (sub @ ''.'' @ entry) allowed)"
proof
  show "isHostAllowed lc h allowed
          = list_ex (host_matches lc (host_name_of lc h)) allowed"
    by (simp add: isHostAllowed_def Let_def normalizeHost_host_name host_matches_def
        endsWith_iff list_ex_iff)
next
  show "list_ex (\<lambda>a. a = entry) allowed \<and> plain_name (lc entry) \<and> plain_name (lc sub)
          \<and> lc (sub @ ''.'' @ entry) = lc sub @ ''.'' @ lc entry
          \<longrightarrow> isHostAllowed lc (sub @ ''.'' @ entry) allowed"
  proof
    assume h: "list_ex (\<lambda>a. a = entry) allowed \<and> plain_name (lc entry) \<and> plain_name (lc sub)
      \<and> lc (sub @ ''.'' @ entry) = lc sub @ ''.'' @ lc entry"
    then have j: "lc (sub @ ''.'' @ entry) = lc sub @ ''.'' @ lc entry" by simp
    from h have "plain_name (lc sub @ ''.'' @ lc entry)" by (simp add: plain_name_def)
    with j have "plain_name (lc (sub @ ''.'' @ entry))" by simp
    then have "normalizeHost lc (sub @ ''.'' @ entry) = lc (sub @ ''.'' @ entry)"
      by (simp only: normalizeHost_host_name host_name_of_plain)
    with j have "endsWith (normalizeHost lc (sub @ ''.'' @ entry)) (''.'' @ lc entry)"
      by (simp add: endsWith_iff)
    moreover from h have "entry \<in> set allowed" by (auto simp: list_ex_iff)
    ultimately show "isHostAllowed lc (sub @ ''.'' @ entry) allowed"
      by (auto simp: isHostAllowed_def Let_def list_ex_iff)
  qed
qed

theorem isHostAllowed_spec_witness:
  "list_ex (host_matches ascii_lower (host_name_of ascii_lower ''HTTPS://Api.GitHub.com:443/repos''))
     [''gitlab.com'', ''GitHub.com'']
   \<and> \<not> list_ex (host_matches ascii_lower (host_name_of ascii_lower ''https://notgithub.com/x''))
     [''gitlab.com'', ''github.com'']
   \<and> (list_ex (\<lambda>a. a = ''GitHub.com'') [''gitlab.com'', ''GitHub.com'']
        \<and> plain_name (ascii_lower ''GitHub.com'') \<and> plain_name (ascii_lower ''Api'')
        \<and> ascii_lower (''Api'' @ ''.'' @ ''GitHub.com'')
            = ascii_lower ''Api'' @ ''.'' @ ascii_lower ''GitHub.com'')
   \<and> isHostAllowed ascii_lower (''Api'' @ ''.'' @ ''GitHub.com'') [''gitlab.com'', ''GitHub.com'']"
proof -
  have a: "isHostAllowed ascii_lower ''HTTPS://Api.GitHub.com:443/repos''
      [''gitlab.com'', ''GitHub.com'']"
    by code_simp
  have b: "\<not> isHostAllowed ascii_lower ''https://notgithub.com/x'' [''gitlab.com'', ''github.com'']"
    by code_simp
  have c: "list_ex (\<lambda>a. a = ''GitHub.com'') [''gitlab.com'', ''GitHub.com'']
        \<and> plain_name (ascii_lower ''GitHub.com'') \<and> plain_name (ascii_lower ''Api'')
        \<and> ascii_lower (''Api'' @ ''.'' @ ''GitHub.com'')
            = ascii_lower ''Api'' @ ''.'' @ ascii_lower ''GitHub.com''"
    by code_simp
  note s1 = isHostAllowed_spec [of ascii_lower "''HTTPS://Api.GitHub.com:443/repos''"
      "[''gitlab.com'', ''GitHub.com'']" "''GitHub.com''" "''Api''"]
  note s2 = isHostAllowed_spec [of ascii_lower "''https://notgithub.com/x''"
      "[''gitlab.com'', ''github.com'']" "''github.com''" "''api''", THEN conjunct1]
  from a s1 [THEN conjunct1]
  have a': "list_ex (host_matches ascii_lower
        (host_name_of ascii_lower ''HTTPS://Api.GitHub.com:443/repos''))
     [''gitlab.com'', ''GitHub.com'']" by (rule rev_iffD1)
  from b s2
  have b': "\<not> list_ex (host_matches ascii_lower
        (host_name_of ascii_lower ''https://notgithub.com/x''))
     [''gitlab.com'', ''github.com'']" by blast
  from c s1 [THEN conjunct2]
  have d: "isHostAllowed ascii_lower (''Api'' @ ''.'' @ ''GitHub.com'')
      [''gitlab.com'', ''GitHub.com'']"
    by (rule rev_mp)
  from a' b' c d show ?thesis by blast
qed

section \<open>Properties of the connection store\<close>

lemma deleteConnection_absent:
  assumes "connections (loadStore st) cid = None"
    and "cid \<notin> set object_prototype_keys"
  shows "deleteConnection cid st = (False, st)"
  using assms by (simp add: deleteConnection_def truthy_property_def)

lemma deleteConnection_present:
  assumes "connections (loadStore st) cid = Some c"
  shows "fst (deleteConnection cid st) = True
    \<and> saved (snd (deleteConnection cid st))
        = saved st @ [(loadStore st)\<lparr>connections := (connections (loadStore st))(cid := None)\<rparr>]
    \<and> memoryStore (snd (deleteConnection cid st))
        = Some ((loadStore st)\<lparr>connections := (connections (loadStore st))(cid := None)\<rparr>)"
  using assms
  by (simp add: deleteConnection_def truthy_property_def delete_property_def saveStore_def
      Let_def)

text \<open>
  C10. A connection id that names a member of \<^verbatim>\<open>Object.prototype\<close> is reported as deleted
  and the store is written, although no connection with that id exists: with an empty
  store on disk, \<^verbatim>\<open>deleteConnection('constructor')\<close> returns true after one \<^verbatim>\<open>saveStore\<close>.
\<close>

theorem deleteConnection_constructor:
  "connections (loadStore empty_disk) ''constructor'' = None
   \<and> fst (deleteConnection ''constructor'' empty_disk) = True
   \<and> saved (snd (deleteConnection ''constructor'' empty_disk)) = [initializeStore]"
  by (simp add: deleteConnection_def truthy_property_def delete_property_def saveStore_def
      loadStore_def empty_disk_def initializeStore_def object_prototype_keys_def Let_def)

section \<open>Properties of the patch steps\<close>

lemma step_adds_one_entry: "step_adds r r' \<Longrightarrow> one_entry r r'"
  by (auto simp: step_adds_def one_entry_def one_more_def push_applied_def push_skipped_def
      push_error_def)

lemma step_adds_entries: "step_adds r r' \<Longrightarrow> entries r' = Suc (entries r)"
  by (auto simp: step_adds_def entries_def push_applied_def push_skipped_def push_error_def)

lemma step_adds_known: "step_adds r r' \<Longrightarrow> known_texts r \<Longrightarrow> known_texts r'"
  by (auto simp: step_adds_def known_texts_def push_applied_def push_skipped_def
      push_error_def)

lemma appliedI: "m \<in> applied_texts \<Longrightarrow> step_adds r (push_applied m r)"
  by (auto simp: step_adds_def)

lemma skippedI: "m \<in> skipped_texts \<Longrightarrow> step_adds r (push_skipped m r)"
  by (auto simp: step_adds_def)

lemma errorI: "step_adds r (push_error m r)"
  by (auto simp: step_adds_def)

lemma optimizeNextConfig_adds: "step_adds r (snd (optimizeNextConfig T fs r))"
  by (auto simp: optimizeNextConfig_def Let_def applied_texts_def skipped_texts_def
      intro!: appliedI skippedI errorI split: sum.splits)

lemma optimizeImages_adds: "step_adds r (snd (optimizeImages T fs r))"
  by (auto simp: optimizeImages_def applied_texts_def skipped_texts_def
      intro!: appliedI skippedI errorI split: sum.splits prod.splits)

lemma optimizeFonts_adds: "step_adds r (snd (optimizeFonts T fs r))"
  by (auto simp: optimizeFonts_def applied_texts_def skipped_texts_def
      intro!: appliedI skippedI errorI split: sum.splits prod.splits)

lemma optimizeCacheHeaders_adds: "step_adds r (snd (optimizeCacheHeaders T fs r))"
  by (auto simp: optimizeCacheHeaders_def Let_def applied_texts_def skipped_texts_def
      intro!: appliedI skippedI errorI split: sum.splits)

lemma optimizeBundle_adds: "step_adds r (snd (optimizeBundle T fs r))"
  by (auto simp: optimizeBundle_def Let_def applied_texts_def skipped_texts_def
      intro!: appliedI skippedI errorI split: sum.splits)

lemma optimizeCodeSplitting_adds: "step_adds r (snd (optimizeCodeSplitting fs r))"
  by (auto simp: optimizeCodeSplitting_def applied_texts_def skipped_texts_def
      intro!: appliedI skippedI errorI split: sum.splits)

lemma purgeCss_adds: "step_adds r (snd (purgeCss fs r))"
  by (auto simp: purgeCss_def Let_def applied_texts_def skipped_texts_def
      intro!: appliedI skippedI errorI split: sum.splits)

lemma optimizeMetaTags_adds: "step_adds r (snd (optimizeMetaTags T site fs r))"
  by (auto simp: optimizeMetaTags_def applied_texts_def skipped_texts_def
      intro!: appliedI skippedI errorI split: sum.splits option.splits)

lemma optimizeRobotsTxt_adds: "step_adds r (snd (optimizeRobotsTxt T site fs r))"
  by (auto simp: optimizeRobotsTxt_def applied_texts_def skipped_texts_def
      intro!: appliedI skippedI errorI split: sum.splits)

lemma optimizeSitemap_adds: "step_adds r (snd (optimizeSitemap T site fs r))"
  by (auto simp: optimizeSitemap_def Let_def applied_texts_def skipped_texts_def
      intro!: appliedI skippedI errorI split: sum.splits)

lemma addStructuredData_adds: "step_adds r (snd (addStructuredData T site fs r))"
  by (auto simp: addStructuredData_def Let_def applied_texts_def skipped_texts_def
      intro!: appliedI skippedI errorI split: sum.splits)

lemma addCanonicalUrls_adds: "step_adds r (snd (addCanonicalUrls T site fs r))"
  by (auto simp: addCanonicalUrls_def applied_texts_def skipped_texts_def
      intro!: appliedI skippedI errorI split: sum.splits prod.splits)

lemma checkImageAltTexts_adds: "step_adds r (snd (checkImageAltTexts T fs r))"
  by (auto simp: checkImageAltTexts_def applied_texts_def skipped_texts_def
      intro!: appliedI skippedI errorI split: sum.splits)

lemma known_texts_empty: "known_texts empty_result"
  by (simp add: known_texts_def empty_result_def)

lemma entries_empty: "entries empty_result = 0"
  by (simp add: entries_def empty_result_def)

lemma applyPerfOptimizations_known:
  "known_texts (snd (applyPerfOptimizations T fs))
   \<and> entries (snd (applyPerfOptimizations T fs)) = 7"
proof -
  obtain fs1 r1 where s1: "optimizeNextConfig T fs empty_result = (fs1, r1)" by fastforce
  obtain fs2 r2 where s2: "optimizeImages T fs1 r1 = (fs2, r2)" by fastforce
  obtain fs3 r3 where s3: "optimizeFonts T fs2 r2 = (fs3, r3)" by fastforce
  obtain fs4 r4 where s4: "optimizeCacheHeaders T fs3 r3 = (fs4, r4)" by fastforce
  obtain fs5 r5 where s5: "optimizeBundle T fs4 r4 = (fs5, r5)" by fastforce
  obtain fs6 r6 where s6: "optimizeCodeSplitting fs5 r5 = (fs6, r6)" by fastforce
  obtain fs7 r7 where s7: "purgeCss fs6 r6 = (fs7, r7)" by fastforce
  have a1: "step_adds empty_result r1" using optimizeNextConfig_adds [of empty_result T fs] s1 by simp
  have a2: "step_adds r1 r2" using optimizeImages_adds [of r1 T fs1] s2 by simp
  have a3: "step_adds r2 r3" using optimizeFonts_adds [of r2 T fs2] s3 by simp
  have a4: "step_adds r3 r4" using optimizeCacheHeaders_adds [of r3 T fs3] s4 by simp
  have a5: "step_adds r4 r5" using optimizeBundle_adds [of r4 T fs4] s5 by simp
  have a6: "step_adds r5 r6" using optimizeCodeSplitting_adds [of r5 fs5] s6 by simp
  have a7: "step_adds r6 r7" using purgeCss_adds [of r6 fs6] s7 by simp
  have res: "snd (applyPerfOptimizations T fs) = r7"
    by (simp add: applyPerfOptimizations_def s1 s2 s3 s4 s5 s6 s7)
  have "known_texts r7"
    using a1 a2 a3 a4 a5 a6 a7 known_texts_empty by (blast intro: step_adds_known)
  moreover have "entries r7 = 7"
    using a1 a2 a3 a4 a5 a6 a7 entries_empty by (simp add: step_adds_entries)
  ultimately show ?thesis by (simp add: res)
qed

lemma applySeoOptimizations_known:
  "known_texts (snd (applySeoOptimizations T site fs))
   \<and> entries (snd (applySeoOptimizations T site fs)) = 6"
proof -
  obtain fs1 r1 where s1: "optimizeMetaTags T site fs empty_result = (fs1, r1)" by fastforce
  obtain fs2 r2 where s2: "optimizeRobotsTxt T site fs1 r1 = (fs2, r2)" by fastforce
  obtain fs3 r3 where s3: "optimizeSitemap T site fs2 r2 = (fs3, r3)" by fastforce
  obtain fs4 r4 where s4: "addStructuredData T site fs3 r3 = (fs4, r4)" by fastforce
  obtain fs5 r5 where s5: "addCanonicalUrls T site fs4 r4 = (fs5, r5)" by fastforce
  obtain fs6 r6 where s6: "checkImageAltTexts T fs5 r5 = (fs6, r6)" by fastforce
  have a1: "step_adds empty_result r1"
    using optimizeMetaTags_adds [of empty_result T site fs] s1 by simp
  have a2: "step_adds r1 r2" using optimizeRobotsTxt_adds [of r1 T site fs1] s2 by simp
  have a3: "step_adds r2 r3" using optimizeSitemap_adds [of r2 T site fs2] s3 by simp
  have a4: "step_adds r3 r4" using addStructuredData_adds [of r3 T site fs3] s4 by simp
  have a5: "step_adds r4 r5" using addCanonicalUrls_adds [of r4 T site fs4] s5 by simp
  have a6: "step_adds r5 r6" using checkImageAltTexts_adds [of r5 T fs5] s6 by simp
  have res: "snd (applySeoOptimizations T site fs) = r6"
    by (simp add: applySeoOptimizations_def s1 s2 s3 s4 s5 s6)
  have "known_texts r6"
    using a1 a2 a3 a4 a5 a6 known_texts_empty by (blast intro: step_adds_known)
  moreover have "entries r6 = 6"
    using a1 a2 a3 a4 a5 a6 entries_empty by (simp add: step_adds_entries)
  ultimately show ?thesis by (simp add: res)
qed

lemma skipped_texts_ends:
  "s \<in> skipped_texts \<Longrightarrow>
     last s \<noteq> CHR ''s'' \<and> last s \<noteq> CHR '')'' \<and> last (butlast s) \<noteq> CHR ''u''"
  by (auto simp: skipped_texts_def)

lemma images_text_end:
  "last (''Images - '' @ show_nat n @ '' fichiers optimis'' @ e_acute @ ''s'') = CHR ''s''"
  by simp

lemma fonts_text_end:
  "last (''Fonts - '' @ show_nat n @ '' fichiers optimis'' @ e_acute
     @ ''s (font-display: swap)'') = CHR '')''"
  by simp

lemma canonical_text_end:
  "last (butlast (''Canonical URLs - '' @ show_nat n @ '' pages mises '' @ a_grave
     @ '' jour'')) = CHR ''u''"
  by (simp add: butlast_append)

lemma texts_disjoint: "applied_texts \<inter> skipped_texts = {}"
proof -
  have "m \<notin> skipped_texts" if "m \<in> applied_texts" for m
  proof
    assume s: "m \<in> skipped_texts"
    note e = skipped_texts_ends [OF s]
    from that consider
      (fixed) "m \<in> {''next.config.js - optimisations ajout'' @ e_acute @ ''es'',
        ''Cache headers - middleware cr'' @ e_acute @ e_acute,
        ''Bundle - script analyze ajout'' @ e_acute,
        ''Meta tags - metadata ajout'' @ e_acute @ '' au layout'',
        ''robots.txt - cr'' @ e_acute @ e_acute @ ''/mis '' @ a_grave @ '' jour'',
        ''sitemap.xml - sitemap.ts g'' @ e_acute @ ''n'' @ e_acute @ ''r'' @ e_acute,
        ''Schema.org - composant StructuredData cr'' @ e_acute @ e_acute,
        ''Alt texts - toutes les images ont des descriptions''}"
      | (images) n where "m = ''Images - '' @ show_nat n @ '' fichiers optimis'' @ e_acute @ ''s''"
      | (fonts) n where "m = ''Fonts - '' @ show_nat n @ '' fichiers optimis'' @ e_acute
          @ ''s (font-display: swap)''"
      | (canonical) n where "m = ''Canonical URLs - '' @ show_nat n @ '' pages mises ''
          @ a_grave @ '' jour''"
      unfolding applied_texts_def by blast
    then show False
    proof cases
      case fixed
      with s show False unfolding skipped_texts_def by auto
    next
      case (images n)
      with e images_text_end [of n] show False by simp
    next
      case (fonts n)
      with e fonts_text_end [of n] show False by simp
    next
      case (canonical n)
      with e canonical_text_end [of n] show False by simp
    qed
  qed
  then show ?thesis by blast
qed

lemma known_texts_disjoint: "known_texts r \<Longrightarrow> set (applied r) \<inter> set (skipped r) = {}"
  using texts_disjoint unfolding known_texts_def by blast

lemma read_each_readable:
  "read_each ps fs = Inr () \<longleftrightarrow> list_all (readable fs) ps"
  by (induction ps) (auto simp: readable_def split: sum.splits)

lemma read_each_error:
  "read_each ps fs = Inl m \<Longrightarrow> \<not> list_all (readable fs) ps"
  using read_each_readable [of ps fs] by simp

text \<open>
  C7. In the outcome of the performance patch set and in the outcome of the SEO patch set,
  no description is in both \<open>applied\<close> and \<open>skipped\<close>; every sub-step adds one entry to
  exactly one of \<open>applied\<close>, \<open>skipped\<close> and \<open>errors\<close>, so the seven performance sub-steps
  leave seven entries and the six SEO sub-steps six.
\<close>

theorem patch_steps_one_list:
  "set (applied (snd (applyPerfOptimizations T fs)))
     \<inter> set (skipped (snd (applyPerfOptimizations T fs))) = {}
   \<and> set (applied (snd (applySeoOptimizations T site fs)))
     \<inter> set (skipped (snd (applySeoOptimizations T site fs))) = {}
   \<and> entries (snd (applyPerfOptimizations T fs)) = 7
   \<and> entries (snd (applySeoOptimizations T site fs)) = 6
   \<and> one_entry r (snd (optimizeNextConfig T fs r))
   \<and> one_entry r (snd (optimizeImages T fs r))
   \<and> one_entry r (snd (optimizeFonts T fs r))
   \<and> one_entry r (snd (optimizeCacheHeaders T fs r))
   \<and> one_entry r (snd (optimizeBundle T fs r))
   \<and> one_entry r (snd (optimizeCodeSplitting fs r))
   \<and> one_entry r (snd (purgeCss fs r))
   \<and> one_entry r (snd (optimizeMetaTags T site fs r))
   \<and> one_entry r (snd (optimizeRobotsTxt T site fs r))
   \<and> one_entry r (snd (optimizeSitemap T site fs r))
   \<and> one_entry r (snd (addStructuredData T site fs r))
   \<and> one_entry r (snd (addCanonicalUrls T site fs r))
   \<and> one_entry r (snd (checkImageAltTexts T fs r))"
proof -
  note p = applyPerfOptimizations_known [of T fs]
  note s = applySeoOptimizations_known [of T site fs]
  have a: "set (applied (snd (applyPerfOptimizations T fs)))
     \<inter> set (skipped (snd (applyPerfOptimizations T fs))) = {}"
    using p by (simp add: known_texts_disjoint)
  have b: "set (applied (snd (applySeoOptimizations T site fs)))
     \<inter> set (skipped (snd (applySeoOptimizations T site fs))) = {}"
    using s by (simp add: known_texts_disjoint)
  note steps =
    optimizeNextConfig_adds [of r T fs, THEN step_adds_one_entry]
    optimizeImages_adds [of r T fs, THEN step_adds_one_entry]
    optimizeFonts_adds [of r T fs, THEN step_adds_one_entry]
    optimizeCacheHeaders_adds [of r T fs, THEN step_adds_one_entry]
    optimizeBundle_adds [of r T fs, THEN step_adds_one_entry]
    optimizeCodeSplitting_adds [of r fs, THEN step_adds_one_entry]
    purgeCss_adds [of r fs, THEN step_adds_one_entry]
    optimizeMetaTags_adds [of r T site fs, THEN step_adds_one_entry]
    optimizeRobotsTxt_adds [of r T site fs, THEN step_adds_one_entry]
    optimizeSitemap_adds [of r T site fs, THEN step_adds_one_entry]
    addStructuredData_adds [of r T site fs, THEN step_adds_one_entry]
    addCanonicalUrls_adds [of r T site fs, THEN step_adds_one_entry]
    checkImageAltTexts_adds [of r T fs, THEN step_adds_one_entry]
  from a b p s steps show ?thesis by (intro conjI) simp_all
qed

text \<open>
  C8, as stated, fails where a file the walk finds cannot be read: the step then records
  an error and no entry in \<open>skipped\<close>.
\<close>

theorem optimizeCodeSplitting_read_error:
  "skipped (snd (optimizeCodeSplitting (Dir [(''a.tsx'', File NoAccess [])]) empty_result)) = []
   \<and> PerfOptimizationResult.errors
       (snd (optimizeCodeSplitting (Dir [(''a.tsx'', File NoAccess [])]) empty_result))
     = [''Code splitting - EACCES: a.tsx'']"
  by code_simp

text \<open>
  C8, amended. The code-splitting step leaves the working tree as it is and never adds to
  \<open>applied\<close>. When every file it finds can be read it adds the entry
  \<^verbatim>\<open>Code splitting - analyse manuelle requise\<close> to \<open>skipped\<close> and nothing else; when a read
  fails it adds one entry to \<open>errors\<close> instead.
\<close>

theorem optimizeCodeSplitting_reads_only:
  "fst (optimizeCodeSplitting fs r) = fs
   \<and> applied (snd (optimizeCodeSplitting fs r)) = applied r
   \<and> (list_all (readable fs) (findFiles fs tsx_or_jsx) \<longrightarrow>
        skipped (snd (optimizeCodeSplitting fs r))
          = skipped r @ [''Code splitting - analyse manuelle requise'']
        \<and> PerfOptimizationResult.errors (snd (optimizeCodeSplitting fs r))
          = PerfOptimizationResult.errors r)
   \<and> (\<not> list_all (readable fs) (findFiles fs tsx_or_jsx) \<longrightarrow>
        skipped (snd (optimizeCodeSplitting fs r)) = skipped r
        \<and> one_more (PerfOptimizationResult.errors r)
             (PerfOptimizationResult.errors (snd (optimizeCodeSplitting fs r))))"
proof (cases "read_each (findFiles fs tsx_or_jsx) fs")
  case (Inl m)
  then have "\<not> list_all (readable fs) (findFiles fs tsx_or_jsx)" by (rule read_each_error)
  with Inl show ?thesis
    by (simp add: optimizeCodeSplitting_def push_error_def one_more_def)
next
  case (Inr u)
  then have "list_all (readable fs) (findFiles fs tsx_or_jsx)"
    using read_each_readable [of "findFiles fs tsx_or_jsx" fs] by simp
  with Inr show ?thesis
    by (simp add: optimizeCodeSplitting_def push_skipped_def)
qed

theorem optimizeCodeSplitting_reads_only_witness:
  "list_all (readable (Dir [(''a.tsx'', File ReadWrite ''x'')]))
     (findFiles (Dir [(''a.tsx'', File ReadWrite ''x'')]) tsx_or_jsx)
   \<and> skipped (snd (optimizeCodeSplitting (Dir [(''a.tsx'', File ReadWrite ''x'')]) empty_result))
       = skipped empty_result @ [''Code splitting - analyse manuelle requise'']
   \<and> \<not> list_all (readable (Dir [(''a.tsx'', File NoAccess [])]))
     (findFiles (Dir [(''a.tsx'', File NoAccess [])]) tsx_or_jsx)
   \<and> skipped (snd (optimizeCodeSplitting (Dir [(''a.tsx'', File NoAccess [])]) empty_result))
       = skipped empty_result"
proof -
  have a: "list_all (readable (Dir [(''a.tsx'', File ReadWrite ''x'')]))
     (findFiles (Dir [(''a.tsx'', File ReadWrite ''x'')]) tsx_or_jsx)"
    by code_simp
  have b: "\<not> list_all (readable (Dir [(''a.tsx'', File NoAccess [])]))
     (findFiles (Dir [(''a.tsx'', File NoAccess [])]) tsx_or_jsx)"
    by code_simp
  from a b
    optimizeCodeSplitting_reads_only [of "Dir [(''a.tsx'', File ReadWrite ''x'')]" empty_result]
    optimizeCodeSplitting_reads_only [of "Dir [(''a.tsx'', File NoAccess [])]" empty_result]
  show ?thesis by blast
qed

section \<open>Properties of the pipeline stages\<close>

lemma console_log_fields:
  "report (console_log l s) = report s"
  "commands (console_log l s) = commands s"
  "tree (console_log l s) = tree s"
  "logs (console_log l s) = logs s @ [l]"
  by (simp_all add: console_log_def)

lemma warn_fields:
  "errors (report (warn w s)) = errors (report s)"
  "success (report (warn w s)) = success (report s)"
  "workDir (report (warn w s)) = workDir (report s)"
  "lighthouse (report (warn w s)) = lighthouse (report s)"
  "diffs (report (warn w s)) = diffs (report s)"
  "perf (report (warn w s)) = perf (report s)"
  "OptimizationReport.seo (report (warn w s)) = OptimizationReport.seo (report s)"
  "commands (warn w s) = commands s"
  "tree (warn w s) = tree s"
  "logs (warn w s) = logs s"
  by (simp_all add: warn_def)

lemma execAsync_fields:
  "fst (execAsync W c s) = exec W c"
  "report (snd (execAsync W c s)) = report s"
  "commands (snd (execAsync W c s)) = commands s @ [c]"
  "tree (snd (execAsync W c s)) = after_exec W c (tree s)"
  "logs (snd (execAsync W c s)) = logs s"
  by (simp_all add: execAsync_def)

lemma execAsync_eq:
  "execAsync W c s = (r, t) \<Longrightarrow>
     r = exec W c \<and> report t = report s \<and> commands t = commands s @ [c]
     \<and> tree t = after_exec W c (tree s) \<and> logs t = logs s"
  by (auto simp: execAsync_def)

lemma prepareWorkingDirectory_fail:
  "mkdir_workDir W = Some m \<Longrightarrow> prepareWorkingDirectory W config s = (Inl m, s)"
  by (simp add: prepareWorkingDirectory_def)

lemma prepareWorkingDirectory_ok:
  assumes "mkdir_workDir W = None"
  shows "fst (prepareWorkingDirectory W config s) = Inr (workDir_of W config)"
    and "report (snd (prepareWorkingDirectory W config s)) = report s"
    and "commands (snd (prepareWorkingDirectory W config s)) = commands s"
    and "set (logs s) \<subseteq> set (logs (snd (prepareWorkingDirectory W config s)))"
  using assms
  by (auto simp: prepareWorkingDirectory_def workDir_of_def Let_def console_log_def)

lemma fetchSources_fst:
  "fst (fetchSources W config dir s) = fst (fetchSources W config dir s')"
  by (simp add: fetchSources_def Let_def execAsync_def split: prod.splits sum.splits)

lemma fetchSources_fields:
  "report (snd (fetchSources W config dir s)) = report s"
  "set (logs s) \<subseteq> set (logs (snd (fetchSources W config dir s)))"
  "set (commands s) \<subseteq> set (commands (snd (fetchSources W config dir s)))"
  by (auto simp: fetchSources_def Let_def execAsync_def console_log_def
      split: prod.splits sum.splits)

lemma fetchSources_commands:
  "commands (snd (fetchSources W config dir s)) = commands s
   \<or> (\<exists>b u. commands (snd (fetchSources W config dir s)) = commands s @ [GitClone b u dir])
   \<or> (\<exists>u h p. commands (snd (fetchSources W config dir s)) = commands s @ [ScpCopy u h p dir])"
  by (auto simp: fetchSources_def Let_def execAsync_def console_log_def
      split: prod.splits sum.splits)

lemma fetchSources_git_log:
  "conn_type (connectionData config) = Some ''git'' \<Longrightarrow>
     ([CHR 0xF0, CHR 0x9F, CHR 0x94, CHR 0x84] @ '' Clonage du d'' @ e_acute @ ''p'' @ o_circ
        @ ''t Git: '' @ tpl (repoUrl (connectionData config)))
     \<in> set (logs (snd (fetchSources W config dir s)))"
  by (auto simp: fetchSources_def Let_def execAsync_def console_log_def
      split: prod.splits sum.splits)

lemma audit_before_fields:
  "errors (report (audit_before W config s)) = errors (report s)"
  "success (report (audit_before W config s)) = success (report s)"
  "workDir (report (audit_before W config s)) = workDir (report s)"
  "diffs (report (audit_before W config s)) = diffs (report s)"
  "lighthouse (report (audit_before W config s))
     = (lighthouse (report s))
         \<lparr>before := Some (fst (runLighthouse (siteUrl config) Desktop (lighthouse_world W 0)))\<rparr>"
  "commands (audit_before W config s) = commands s"
  "tree (audit_before W config s) = tree s"
  "set (logs s) \<subseteq> set (logs (audit_before W config s))"
  by (auto simp: audit_before_def Let_def console_log_def split: prod.splits)

lemma createOptimizationBranch_fields:
  "report (createOptimizationBranch W b s) = report s"
  "commands (createOptimizationBranch W b s) = commands s @ [GitCheckoutNew b]"
  "tree (createOptimizationBranch W b s) = after_exec W (GitCheckoutNew b) (tree s)"
  "set (logs s) \<subseteq> set (logs (createOptimizationBranch W b s))"
  by (auto simp: createOptimizationBranch_def execAsync_def console_log_def
      split: prod.splits sum.splits)

lemma installDependencies_fields:
  "report (installDependencies W s) = report s"
  "set (commands s) \<subseteq> set (commands (installDependencies W s))"
  "set (logs s) \<subseteq> set (logs (installDependencies W s))"
  by (auto simp: installDependencies_def Let_def execAsync_def console_log_def
      split: prod.splits sum.splits)

lemma apply_patches_fields:
  "errors (report (apply_patches T config s)) = errors (report s)"
  "success (report (apply_patches T config s)) = success (report s)"
  "workDir (report (apply_patches T config s)) = workDir (report s)"
  "diffs (report (apply_patches T config s)) = diffs (report s)"
  "lighthouse (report (apply_patches T config s)) = lighthouse (report s)"
  "commands (apply_patches T config s) = commands s"
  "logs (apply_patches T config s) = logs s"
  by (simp_all add: apply_patches_def Let_def split: prod.splits)

lemma runQualityChecks_fields:
  "errors (report (runQualityChecks W P s)) = errors (report s)"
  "success (report (runQualityChecks W P s)) = success (report s)"
  "workDir (report (runQualityChecks W P s)) = workDir (report s)"
  "diffs (report (runQualityChecks W P s)) = diffs (report s)"
  "lighthouse (report (runQualityChecks W P s)) = lighthouse (report s)"
  "commands (runQualityChecks W P s) = commands s @ [NpmRunLint, Prettier, NpmAudit]"
  "set (logs s) \<subseteq> set (logs (runQualityChecks W P s))"
  by (auto simp: runQualityChecks_def Let_def execAsync_def console_log_def warn_def
      split: prod.splits sum.splits option.splits)

lemma buildProject_fst: "fst (buildProject W s) = build_error W"
  by (simp add: buildProject_def build_error_def Let_def execAsync_def
      split: prod.splits sum.splits)

lemma buildProject_fields:
  "errors (report (snd (buildProject W s)))
     = errors (report s) @ (case build_error W of None \<Rightarrow> [] | Some m \<Rightarrow> [m])"
  "success (report (snd (buildProject W s))) = success (report s)"
  "workDir (report (snd (buildProject W s))) = workDir (report s)"
  "diffs (report (snd (buildProject W s))) = diffs (report s)"
  "lighthouse (report (snd (buildProject W s))) = lighthouse (report s)"
  "commands (snd (buildProject W s)) = commands s @ [NpmRunBuild]"
  "set (logs s) \<subseteq> set (logs (snd (buildProject W s)))"
  by (auto simp: buildProject_def build_error_def Let_def execAsync_def console_log_def
      split: prod.splits sum.splits)

lemma validateScores_fields:
  "errors (report (validateScores config s)) = errors (report s)"
  "success (report (validateScores config s)) = success (report s)"
  "workDir (report (validateScores config s)) = workDir (report s)"
  "diffs (report (validateScores config s)) = diffs (report s)"
  "lighthouse (report (validateScores config s)) = lighthouse (report s)"
  "commands (validateScores config s) = commands s"
  "logs (validateScores config s) = logs s"
  by (simp_all add: validateScores_def Let_def warn_fields split: option.splits)

lemma commit_failed_fields:
  "errors (report (commit_failed m s)) = errors (report s)"
  "success (report (commit_failed m s)) = success (report s)"
  "workDir (report (commit_failed m s)) = workDir (report s)"
  "diffs (report (commit_failed m s)) = diffs (report s)"
  "lighthouse (report (commit_failed m s)) = lighthouse (report s)"
  "commands (commit_failed m s) = commands s"
  "set (logs s) \<subseteq> set (logs (commit_failed m s))"
  by (auto simp: commit_failed_def warn_def console_log_def)

lemma commitChanges_fields:
  "errors (report (commitChanges W P config s)) = errors (report s)"
  "success (report (commitChanges W P config s)) = success (report s)"
  "workDir (report (commitChanges W P config s)) = workDir (report s)"
  "diffs (report (commitChanges W P config s)) = diffs (report s)"
  "lighthouse (report (commitChanges W P config s)) = lighthouse (report s)"
  "set (commands s) \<subseteq> set (commands (commitChanges W P config s))"
  "set (logs s) \<subseteq> set (logs (commitChanges W P config s))"
  by (auto simp: commitChanges_def Let_def execAsync_def console_log_def commit_failed_def
      warn_def split: prod.splits sum.splits)

lemma createPullRequest_fields:
  "errors (report (createPullRequest W P config s)) = errors (report s)"
  "success (report (createPullRequest W P config s)) = success (report s)"
  "workDir (report (createPullRequest W P config s)) = workDir (report s)"
  "diffs (report (createPullRequest W P config s)) = diffs (report s)"
  "lighthouse (report (createPullRequest W P config s)) = lighthouse (report s)"
  "set (commands s) \<subseteq> set (commands (createPullRequest W P config s))"
  "set (logs s) \<subseteq> set (logs (createPullRequest W P config s))"
  by (auto simp: createPullRequest_def Let_def execAsync_def console_log_def warn_def
      split: prod.splits sum.splits)

lemma compute_diffs_fields:
  "errors (report (compute_diffs s)) = errors (report s)"
  "success (report (compute_diffs s)) = success (report s)"
  "workDir (report (compute_diffs s)) = workDir (report s)"
  "lighthouse (report (compute_diffs s)) = lighthouse (report s)"
  "commands (compute_diffs s) = commands s"
  "logs (compute_diffs s) = logs s"
  by (simp_all add: compute_diffs_def split: option.splits)

lemma compute_diffs_both:
  "before (lighthouse (report s)) = Some b \<Longrightarrow> after (lighthouse (report s)) = Some a \<Longrightarrow>
     diffs (report (compute_diffs s)) = compareAudits b a"
  by (simp add: compute_diffs_def compareAudits_def)

lemma audit_after_fields:
  "errors (report (audit_after W config s)) = errors (report s)"
  "success (report (audit_after W config s)) = success (report s)"
  "workDir (report (audit_after W config s)) = workDir (report s)"
  "diffs (report (audit_after W config s)) = diffs (report s)"
  "lighthouse (report (audit_after W config s))
     = (lighthouse (report s))
         \<lparr>after := Some (fst (runLighthouse (siteUrl config) Desktop (lighthouse_world W 1))),
          mobile := Some (fst (runLighthouse (siteUrl config) Mobile (lighthouse_world W 2)))\<rparr>"
  "commands (audit_after W config s) = commands s"
  "set (logs s) \<subseteq> set (logs (audit_after W config s))"
  by (auto simp: audit_after_def Let_def console_log_def split: prod.splits)

lemma publish_fields:
  "errors (report (publish W P config s)) = errors (report s)"
  "success (report (publish W P config s)) = success (report s)"
  "workDir (report (publish W P config s)) = workDir (report s)"
  "diffs (report (publish W P config s)) = diffs (report s)"
  "lighthouse (report (publish W P config s)) = lighthouse (report s)"
  by (simp_all add: publish_def Let_def commitChanges_fields createPullRequest_fields)

lemma publish_commands: "set (commands s) \<subseteq> set (commands (publish W P config s))"
proof (cases "preferPr config")
  case True
  have "set (commands s) \<subseteq> set (commands (commitChanges W P config s))"
    by (rule commitChanges_fields)
  also have "\<dots> \<subseteq> set (commands (createPullRequest W P config (commitChanges W P config s)))"
    by (rule createPullRequest_fields)
  finally show ?thesis using True by (simp add: publish_def Let_def)
next
  case False
  then show ?thesis by (simp add: publish_def Let_def commitChanges_fields)
qed

lemma publish_logs: "set (logs s) \<subseteq> set (logs (publish W P config s))"
proof (cases "preferPr config")
  case True
  have "set (logs s) \<subseteq> set (logs (commitChanges W P config s))"
    by (rule commitChanges_fields)
  also have "\<dots> \<subseteq> set (logs (createPullRequest W P config (commitChanges W P config s)))"
    by (rule createPullRequest_fields)
  finally show ?thesis using True by (simp add: publish_def Let_def)
next
  case False
  then show ?thesis by (simp add: publish_def Let_def commitChanges_fields)
qed

lemma mark_success_fields:
  "errors (report (mark_success s)) = errors (report s)"
  "success (report (mark_success s)) = True"
  "workDir (report (mark_success s)) = workDir (report s)"
  "diffs (report (mark_success s)) = diffs (report s)"
  "lighthouse (report (mark_success s)) = lighthouse (report s)"
  "commands (mark_success s) = commands s"
  "set (logs s) \<subseteq> set (logs (mark_success s))"
  by (auto simp: mark_success_def console_log_def)

lemma finish_run_fields:
  "errors (report (finish_run W P config s)) = errors (report s)"
  "success (report (finish_run W P config s)) = True"
  "workDir (report (finish_run W P config s)) = workDir (report s)"
  "lighthouse (report (finish_run W P config s))
     = (lighthouse (report s))
         \<lparr>after := Some (fst (runLighthouse (siteUrl config) Desktop (lighthouse_world W 1))),
          mobile := Some (fst (runLighthouse (siteUrl config) Mobile (lighthouse_world W 2)))\<rparr>"
  by (simp_all add: finish_run_def Let_def mark_success_fields publish_fields
      validateScores_fields compute_diffs_fields audit_after_fields)

lemma finish_run_diffs:
  assumes "before (lighthouse (report s)) = Some b"
  shows "diffs (report (finish_run W P config s))
     = compareAudits b (fst (runLighthouse (siteUrl config) Desktop (lighthouse_world W 1)))"
proof -
  have "diffs (report (compute_diffs (audit_after W config s)))
      = compareAudits b (fst (runLighthouse (siteUrl config) Desktop (lighthouse_world W 1)))"
    using assms by (intro compute_diffs_both) (simp_all add: audit_after_fields)
  then show ?thesis
    by (simp add: finish_run_def Let_def mark_success_fields publish_fields
        validateScores_fields)
qed

lemma finish_run_commands: "set (commands s) \<subseteq> set (commands (finish_run W P config s))"
proof -
  have "commands (validateScores config (compute_diffs (audit_after W config s))) = commands s"
    by (simp add: validateScores_fields compute_diffs_fields audit_after_fields)
  then show ?thesis
    using publish_commands [of "validateScores config (compute_diffs (audit_after W config s))"
        W P config]
    by (simp add: finish_run_def Let_def mark_success_fields)
qed

lemma finish_run_logs: "set (logs s) \<subseteq> set (logs (finish_run W P config s))"
proof -
  have "set (logs s) \<subseteq> set (logs (audit_after W config s))"
    by (rule audit_after_fields)
  also have "\<dots> = set (logs (validateScores config (compute_diffs (audit_after W config s))))"
    by (simp add: validateScores_fields compute_diffs_fields)
  also have "\<dots> \<subseteq> set (logs (publish W P config
      (validateScores config (compute_diffs (audit_after W config s)))))"
    by (rule publish_logs)
  also have "\<dots> \<subseteq> set (logs (finish_run W P config s))"
    by (simp add: finish_run_def Let_def mark_success_fields)
  finally show ?thesis .
qed

section \<open>The four ways a run ends\<close>

lemma caught_fields:
  "errors (report (caught m s)) = errors (report s) @ [m]"
  "success (report (caught m s)) = False"
  "workDir (report (caught m s)) = workDir (report s)"
  "diffs (report (caught m s)) = diffs (report s)"
  "lighthouse (report (caught m s)) = lighthouse (report s)"
  "commands (caught m s) = commands s"
  "set (logs s) \<subseteq> set (logs (caught m s))"
  by (auto simp: caught_def Let_def console_log_def)

lemma initial_state_fields:
  "report (initial_state config) = initial_report config"
  "commands (initial_state config) = []"
  by (simp_all add: initial_state_def)

lemma initial_report_fields:
  "errors (initial_report config) = []"
  "success (initial_report config) = False"
  "diffs (initial_report config) = []"
  "lighthouse (initial_report config) = \<lparr>before = None, after = None, mobile = None\<rparr>"
  by (simp_all add: initial_report_def)

lemma state_prepared_fields:
  assumes "mkdir_workDir W = None"
  shows "errors (report (state_prepared W config)) = []"
    and "success (report (state_prepared W config)) = False"
    and "workDir (report (state_prepared W config)) = workDir_of W config"
    and "diffs (report (state_prepared W config)) = []"
    and "lighthouse (report (state_prepared W config))
          = \<lparr>before = None, after = None, mobile = None\<rparr>"
    and "commands (state_prepared W config) = []"
  using prepareWorkingDirectory_ok [OF assms, where config = config and s = "initial_state config"]
  by (simp_all add: state_prepared_def Let_def initial_state_fields initial_report_fields)

lemma state_fetched_fields:
  assumes "mkdir_workDir W = None"
  shows "errors (report (state_fetched W config)) = []"
    and "success (report (state_fetched W config)) = False"
    and "workDir (report (state_fetched W config)) = workDir_of W config"
    and "diffs (report (state_fetched W config)) = []"
    and "lighthouse (report (state_fetched W config))
          = \<lparr>before = None, after = None, mobile = None\<rparr>"
  by (simp_all add: state_fetched_def fetchSources_fields state_prepared_fields [OF assms])

lemma state_fetched_commands:
  assumes "mkdir_workDir W = None"
  shows "commands (state_fetched W config) = []
   \<or> (\<exists>b u. commands (state_fetched W config) = [GitClone b u (workDir_of W config)])
   \<or> (\<exists>u h p. commands (state_fetched W config) = [ScpCopy u h p (workDir_of W config)])"
  using fetchSources_commands [of W config "workDir_of W config" "state_prepared W config"]
  by (simp add: state_fetched_def state_prepared_fields [OF assms])

lemma state_checked_fields:
  assumes "mkdir_workDir W = None"
  shows "errors (report (state_checked W T P config)) = []"
    and "success (report (state_checked W T P config)) = False"
    and "workDir (report (state_checked W T P config)) = workDir_of W config"
    and "diffs (report (state_checked W T P config)) = []"
    and "lighthouse (report (state_checked W T P config))
          = \<lparr>before = Some (fst (runLighthouse (siteUrl config) Desktop (lighthouse_world W 0))),
             after = None, mobile = None\<rparr>"
  by (simp_all add: state_checked_def runQualityChecks_fields apply_patches_fields
      installDependencies_fields createOptimizationBranch_fields audit_before_fields
      state_fetched_fields [OF assms])

lemma state_checked_commands:
  "GitCheckoutNew (optimizeBranch config) \<in> set (commands (state_checked W T P config))"
proof -
  have "GitCheckoutNew (optimizeBranch config)
      \<in> set (commands (createOptimizationBranch W (optimizeBranch config)
            (audit_before W config (state_fetched W config))))"
    by (simp add: createOptimizationBranch_fields)
  then have "GitCheckoutNew (optimizeBranch config)
      \<in> set (commands (installDependencies W (createOptimizationBranch W (optimizeBranch config)
            (audit_before W config (state_fetched W config)))))"
    using installDependencies_fields(2) by blast
  then show ?thesis
    by (simp add: state_checked_def runQualityChecks_fields apply_patches_fields)
qed

lemma state_built_fields:
  assumes "mkdir_workDir W = None"
  shows "errors (report (state_built W T P config))
          = (case build_error W of None \<Rightarrow> [] | Some m \<Rightarrow> [m])"
    and "success (report (state_built W T P config)) = False"
    and "workDir (report (state_built W T P config)) = workDir_of W config"
    and "diffs (report (state_built W T P config)) = []"
    and "lighthouse (report (state_built W T P config))
          = \<lparr>before = Some (fst (runLighthouse (siteUrl config) Desktop (lighthouse_world W 0))),
             after = None, mobile = None\<rparr>"
  by (simp_all add: state_built_def buildProject_fields state_checked_fields [OF assms])

lemma state_built_commands:
  "GitCheckoutNew (optimizeBranch config) \<in> set (commands (state_built W T P config))"
  "NpmRunBuild \<in> set (commands (state_built W T P config))"
  using state_checked_commands [of config W T P]
  by (simp_all add: state_built_def buildProject_fields)

lemma pipeline_try_cases:
  "pipeline_try W T P config (initial_state config) =
     (case mkdir_workDir W of
        Some m \<Rightarrow> (Some m, initial_state config)
      | None \<Rightarrow>
          (case fetch_error W config of
             Some m \<Rightarrow> (Some m, state_fetched W config)
           | None \<Rightarrow>
               (case build_error W of
                  Some m \<Rightarrow> (Some m, state_built W T P config)
                | None \<Rightarrow> (None, finish_run W P config (state_built W T P config)))))"
proof (cases "mkdir_workDir W")
  case (Some m)
  then show ?thesis
    by (simp add: pipeline_try_def prepareWorkingDirectory_fail)
next
  case None
  obtain s1 where p: "prepareWorkingDirectory W config (initial_state config)
      = (Inr (workDir_of W config), s1)"
    using prepareWorkingDirectory_ok(1) [OF None, where config = config and s = "initial_state config"]
    by (metis prod.collapse)
  have sp: "state_prepared W config = s1\<lparr>report := (report s1)\<lparr>workDir := workDir_of W config\<rparr>\<rparr>"
    by (simp add: state_prepared_def p)
  have f: "fetchSources W config (workDir_of W config) (state_prepared W config)
      = (fetch_error W config, state_fetched W config)"
    using fetchSources_fst [of W config "workDir_of W config" "state_prepared W config"
        "initial_state config"]
    by (simp add: fetch_error_def state_fetched_def prod_eq_iff)
  have b: "buildProject W (state_checked W T P config)
      = (build_error W, state_built W T P config)"
    by (simp add: state_built_def prod_eq_iff buildProject_fst)
  have "pipeline_try W T P config (initial_state config) =
      (case fetchSources W config (workDir_of W config) (state_prepared W config) of
         (Some m, s3) \<Rightarrow> (Some m, s3)
       | (None, s3) \<Rightarrow>
           (case buildProject W (runQualityChecks W P
                   (apply_patches T config
                      (installDependencies W
                         (createOptimizationBranch W (optimizeBranch config)
                            (audit_before W config s3))))) of
              (Some m, s9) \<Rightarrow> (Some m, s9)
            | (None, s9) \<Rightarrow> (None, finish_run W P config s9)))"
    by (simp add: pipeline_try_def p sp Let_def split: prod.splits option.splits)
  also have "\<dots> =
      (case fetch_error W config of
         Some m \<Rightarrow> (Some m, state_fetched W config)
       | None \<Rightarrow>
           (case buildProject W (state_checked W T P config) of
              (Some m, s9) \<Rightarrow> (Some m, s9)
            | (None, s9) \<Rightarrow> (None, finish_run W P config s9)))"
    by (simp add: f state_checked_def split: option.splits)
  finally have "pipeline_try W T P config (initial_state config) =
      (case fetch_error W config of
         Some m \<Rightarrow> (Some m, state_fetched W config)
       | None \<Rightarrow>
           (case buildProject W (state_checked W T P config) of
              (Some m, s9) \<Rightarrow> (Some m, s9)
            | (None, s9) \<Rightarrow> (None, finish_run W P config s9)))" .
  then show ?thesis
    by (simp add: None b split: option.splits)
qed

lemma run_cases:
  "runOptimizationPipeline W T P config =
     (case mkdir_workDir W of
        Some m \<Rightarrow> caught m (initial_state config)
      | None \<Rightarrow>
          (case fetch_error W config of
             Some m \<Rightarrow> caught m (state_fetched W config)
           | None \<Rightarrow>
               (case build_error W of
                  Some m \<Rightarrow> caught m (state_built W T P config)
                | None \<Rightarrow> finish_run W P config (state_built W T P config))))"
  by (simp add: runOptimizationPipeline_def pipeline_try_cases split: option.splits)

lemma run_mkdir_fail:
  assumes "mkdir_workDir W = Some m"
  shows "report (runOptimizationPipeline W T P config) = (initial_report config)\<lparr>errors := [m]\<rparr>"
    and "commands (runOptimizationPipeline W T P config) = []"
  using assms
  by (simp_all add: run_cases caught_def Let_def console_log_def initial_state_def
      initial_report_def)

lemma run_fetch_fail:
  assumes "mkdir_workDir W = None" and "fetch_error W config = Some m"
  shows "success (report (runOptimizationPipeline W T P config)) = False"
    and "errors (report (runOptimizationPipeline W T P config)) = [m]"
    and "workDir (report (runOptimizationPipeline W T P config)) = workDir_of W config"
    and "diffs (report (runOptimizationPipeline W T P config)) = []"
    and "lighthouse (report (runOptimizationPipeline W T P config))
          = \<lparr>before = None, after = None, mobile = None\<rparr>"
    and "commands (runOptimizationPipeline W T P config) = commands (state_fetched W config)"
  using assms
  by (simp_all add: run_cases caught_fields state_fetched_fields)

lemma run_build_fail:
  assumes "mkdir_workDir W = None" and "fetch_error W config = None"
    and "build_error W = Some m"
  shows "success (report (runOptimizationPipeline W T P config)) = False"
    and "errors (report (runOptimizationPipeline W T P config)) = [m, m]"
    and "workDir (report (runOptimizationPipeline W T P config)) = workDir_of W config"
    and "diffs (report (runOptimizationPipeline W T P config)) = []"
    and "lighthouse (report (runOptimizationPipeline W T P config))
          = \<lparr>before = Some (fst (runLighthouse (siteUrl config) Desktop (lighthouse_world W 0))),
             after = None, mobile = None\<rparr>"
    and "commands (runOptimizationPipeline W T P config) = commands (state_built W T P config)"
  using assms
  by (simp_all add: run_cases caught_fields state_built_fields)

lemma run_ok:
  assumes "mkdir_workDir W = None" and "fetch_error W config = None"
    and "build_error W = None"
  shows "success (report (runOptimizationPipeline W T P config)) = True"
    and "errors (report (runOptimizationPipeline W T P config)) = []"
    and "workDir (report (runOptimizationPipeline W T P config)) = workDir_of W config"
    and "diffs (report (runOptimizationPipeline W T P config))
          = compareAudits (fst (runLighthouse (siteUrl config) Desktop (lighthouse_world W 0)))
              (fst (runLighthouse (siteUrl config) Desktop (lighthouse_world W 1)))"
    and "lighthouse (report (runOptimizationPipeline W T P config))
          = \<lparr>before = Some (fst (runLighthouse (siteUrl config) Desktop (lighthouse_world W 0))),
             after = Some (fst (runLighthouse (siteUrl config) Desktop (lighthouse_world W 1))),
             mobile = Some (fst (runLighthouse (siteUrl config) Mobile (lighthouse_world W 2)))\<rparr>"
  using assms
  by (simp_all add: run_cases finish_run_fields finish_run_diffs state_built_fields)

lemma run_commands_after_fetch:
  assumes "mkdir_workDir W = None" and "fetch_error W config = None"
  shows "GitCheckoutNew (optimizeBranch config)
           \<in> set (commands (runOptimizationPipeline W T P config))"
    and "NpmRunBuild \<in> set (commands (runOptimizationPipeline W T P config))"
proof -
  note b = state_built_commands [where config = config and W = W and T = T and P = P]
  note f = finish_run_commands [where s = "state_built W T P config" and W = W and P = P and config = config]
  show "GitCheckoutNew (optimizeBranch config)
           \<in> set (commands (runOptimizationPipeline W T P config))"
    using assms b(1) f by (cases "build_error W") (auto simp: run_cases caught_fields)
  show "NpmRunBuild \<in> set (commands (runOptimizationPipeline W T P config))"
    using assms b(2) f by (cases "build_error W") (auto simp: run_cases caught_fields)
qed

lemma runLighthouse_fst:
  "fst (runLighthouse u p L)
     = (case lighthouse_try u p L of Inl m \<Rightarrow> default_result u p L | Inr r \<Rightarrow> r)"
  by (simp add: runLighthouse_def split: sum.splits)

lemma lighthouse_try_tool_failure: "lh_exec L = Some m \<Longrightarrow> \<exists>e. lighthouse_try u p L = Inl e"
  by (simp add: lighthouse_try_def split: option.splits)

lemma runLighthouse_tool_failure:
  "lh_exec L = Some m \<Longrightarrow> fst (runLighthouse u p L) = default_result u p L"
  using lighthouse_try_tool_failure [where L = L and m = m and u = u and p = p]
  by (auto simp: runLighthouse_fst)

text \<open>
  When the fetch throws, for whatever reason, the run ends with \<open>success = False\<close>, the
  working directory recorded, the message in \<open>errors\<close>, and no command after the fetch.
\<close>

lemma fetch_failure_aborts:
  assumes "mkdir_workDir W = None" and "fetch_error W config = Some m"
  shows "success (report (runOptimizationPipeline W T P config)) = False
    \<and> workDir (report (runOptimizationPipeline W T P config)) = workDir_of W config
    \<and> errors (report (runOptimizationPipeline W T P config)) = [m]
    \<and> (commands (runOptimizationPipeline W T P config) = []
        \<or> (\<exists>b u. commands (runOptimizationPipeline W T P config)
               = [GitClone b u (workDir_of W config)])
        \<or> (\<exists>u h p. commands (runOptimizationPipeline W T P config)
               = [ScpCopy u h p (workDir_of W config)]))"
  using run_fetch_fail [OF assms, where T = T and P = P]
    state_fetched_commands [OF assms(1), where config = config]
  by simp

lemma sample_fetch_ok: "fetch_error sample_world (sample_config u) = None"
  by (simp add: fetch_error_def fetchSources_def Let_def execAsync_def sample_world_def
      sample_config_def git_connection_def)

lemma sample_build_ok: "build_error sample_world = None"
  by (simp add: build_error_def sample_world_def)

section \<open>The claims about the pipeline\<close>

text \<open>
  C1, as stated, fails: a stage can fail without its message reaching \<open>errors\<close> and without
  \<open>success\<close> becoming false. Where the linter fails (and the audits fail, as in the sample
  world) and the build succeeds, the run ends with \<open>success = True\<close> and no error.
\<close>

theorem lint_failure_not_an_error:
  "exec lint_failing_world NpmRunLint = Inl ''lint failed''
   \<and> lh_exec (lighthouse_world lint_failing_world 0) \<noteq> None
   \<and> success (report (runOptimizationPipeline lint_failing_world sample_ops sample_texts
         (sample_config ''https://github.com/o/r.git''))) = True
   \<and> errors (report (runOptimizationPipeline lint_failing_world sample_ops sample_texts
         (sample_config ''https://github.com/o/r.git''))) = []"
proof -
  have m: "mkdir_workDir lint_failing_world = None"
    by (simp add: lint_failing_world_def sample_world_def)
  have f: "fetch_error lint_failing_world (sample_config ''https://github.com/o/r.git'') = None"
    by (simp add: fetch_error_def fetchSources_def Let_def execAsync_def lint_failing_world_def
        sample_world_def sample_config_def git_connection_def)
  have b: "build_error lint_failing_world = None"
    by (simp add: build_error_def lint_failing_world_def sample_world_def)
  have e: "exec lint_failing_world NpmRunLint = Inl ''lint failed''
      \<and> lh_exec (lighthouse_world lint_failing_world 0) \<noteq> None"
    by (simp add: lint_failing_world_def sample_world_def audit_down_def)
  from e run_ok(1,2) [OF m f b] show ?thesis by simp
qed

text \<open>
  C1, amended. \<^verbatim>\<open>runOptimizationPipeline\<close> always returns its report. The stages that throw
  to the orchestrator are the allocation of the working directory, the fetch of the sources
  and the build: when one of them throws, the message is the last entry of \<open>errors\<close>,
  \<open>success\<close> is false, and the report is the one accumulated up to that stage (the initial
  report, the report after the fetch stage, the report after the build stage, which already
  holds the build message once). When none of them throws, \<open>success\<close> is true and \<open>errors\<close>
  is empty, whatever happens inside the other stages.
\<close>

theorem pipeline_failures_reported:
  "(mkdir_workDir W = Some m \<longrightarrow>
      report (runOptimizationPipeline W T P config) = (initial_report config)\<lparr>errors := [m]\<rparr>
      \<and> success (report (runOptimizationPipeline W T P config)) = False)
   \<and> (mkdir_workDir W = None \<and> fetch_error W config = Some m \<longrightarrow>
      report (runOptimizationPipeline W T P config)
        = (report (state_fetched W config))\<lparr>errors := [m], success := False\<rparr>
      \<and> success (report (runOptimizationPipeline W T P config)) = False
      \<and> errors (report (runOptimizationPipeline W T P config)) = [m]
      \<and> workDir (report (runOptimizationPipeline W T P config)) = workDir_of W config)
   \<and> (mkdir_workDir W = None \<and> fetch_error W config = None \<and> build_error W = Some m \<longrightarrow>
      report (runOptimizationPipeline W T P config)
        = (report (state_built W T P config))\<lparr>errors := [m, m], success := False\<rparr>
      \<and> success (report (runOptimizationPipeline W T P config)) = False
      \<and> errors (report (runOptimizationPipeline W T P config)) = [m, m]
      \<and> workDir (report (runOptimizationPipeline W T P config)) = workDir_of W config)
   \<and> (mkdir_workDir W = None \<and> fetch_error W config = None \<and> build_error W = None \<longrightarrow>
      success (report (runOptimizationPipeline W T P config)) = True
      \<and> errors (report (runOptimizationPipeline W T P config)) = [])"
proof (intro conjI impI)
  assume a: "mkdir_workDir W = Some m"
  show "report (runOptimizationPipeline W T P config) = (initial_report config)\<lparr>errors := [m]\<rparr>"
    by (rule run_mkdir_fail(1) [OF a])
  then show "success (report (runOptimizationPipeline W T P config)) = False"
    by (simp add: initial_report_def)
next
  assume a: "mkdir_workDir W = None \<and> fetch_error W config = Some m"
  then have a1: "mkdir_workDir W = None" and a2: "fetch_error W config = Some m" by simp_all
  show "report (runOptimizationPipeline W T P config)
        = (report (state_fetched W config))\<lparr>errors := [m], success := False\<rparr>"
    using state_fetched_fields(1) [OF a1, where config = config]
    by (simp add: run_cases a1 a2 caught_def Let_def console_log_def)
  show "success (report (runOptimizationPipeline W T P config)) = False"
    by (rule run_fetch_fail(1) [OF a1 a2])
  show "errors (report (runOptimizationPipeline W T P config)) = [m]"
    by (rule run_fetch_fail(2) [OF a1 a2])
  show "workDir (report (runOptimizationPipeline W T P config)) = workDir_of W config"
    by (rule run_fetch_fail(3) [OF a1 a2])
next
  assume a: "mkdir_workDir W = None \<and> fetch_error W config = None \<and> build_error W = Some m"
  then have a1: "mkdir_workDir W = None" and a2: "fetch_error W config = None"
    and a3: "build_error W = Some m" by simp_all
  show "report (runOptimizationPipeline W T P config)
        = (report (state_built W T P config))\<lparr>errors := [m, m], success := False\<rparr>"
    using state_built_fields(1) [OF a1, where config = config and T = T and P = P]
    by (simp add: run_cases a1 a2 a3 caught_def Let_def console_log_def)
  show "success (report (runOptimizationPipeline W T P config)) = False"
    by (rule run_build_fail(1) [OF a1 a2 a3])
  show "errors (report (runOptimizationPipeline W T P config)) = [m, m]"
    by (rule run_build_fail(2) [OF a1 a2 a3])
  show "workDir (report (runOptimizationPipeline W T P config)) = workDir_of W config"
    by (rule run_build_fail(3) [OF a1 a2 a3])
next
  assume a: "mkdir_workDir W = None \<and> fetch_error W config = None \<and> build_error W = None"
  then have a1: "mkdir_workDir W = None" and a2: "fetch_error W config = None"
    and a3: "build_error W = None" by simp_all
  show "success (report (runOptimizationPipeline W T P config)) = True"
    by (rule run_ok(1) [OF a1 a2 a3])
  show "errors (report (runOptimizationPipeline W T P config)) = []"
    by (rule run_ok(2) [OF a1 a2 a3])
qed

theorem pipeline_failures_reported_witness:
  "mkdir_workDir no_disk_world = Some ''ENOSPC: no space left on device''
   \<and> errors (report (runOptimizationPipeline no_disk_world sample_ops sample_texts
         (sample_config ''https://github.com/o/r.git'')))
       = [''ENOSPC: no space left on device'']
   \<and> fetch_error clone_failing_world (sample_config ''https://github.com/o/r.git'') \<noteq> None
   \<and> success (report (runOptimizationPipeline clone_failing_world sample_ops sample_texts
         (sample_config ''https://github.com/o/r.git''))) = False
   \<and> build_error build_failing_world
       = Some (''Build '' @ e_acute @ ''chou'' @ e_acute @ '': exit code 1'')
   \<and> errors (report (runOptimizationPipeline build_failing_world sample_ops sample_texts
         (sample_config ''https://github.com/o/r.git'')))
       = [''Build '' @ e_acute @ ''chou'' @ e_acute @ '': exit code 1'',
          ''Build '' @ e_acute @ ''chou'' @ e_acute @ '': exit code 1'']
   \<and> success (report (runOptimizationPipeline sample_world sample_ops sample_texts
         (sample_config ''https://github.com/o/r.git''))) = True"
proof -
  let ?c = "sample_config ''https://github.com/o/r.git''"
  have m1: "mkdir_workDir no_disk_world = Some ''ENOSPC: no space left on device''"
    by (simp add: no_disk_world_def)
  have m2: "mkdir_workDir clone_failing_world = None"
    by (simp add: clone_failing_world_def sample_world_def)
  obtain e where f2: "fetch_error clone_failing_world ?c = Some e"
    by (simp add: fetch_error_def fetchSources_def Let_def execAsync_def
        clone_failing_world_def sample_world_def sample_config_def git_connection_def)
  have m3: "mkdir_workDir build_failing_world = None"
    by (simp add: build_failing_world_def sample_world_def)
  have f3: "fetch_error build_failing_world ?c = None"
    by (simp add: fetch_error_def fetchSources_def Let_def execAsync_def
        build_failing_world_def sample_world_def sample_config_def git_connection_def)
  have b3: "build_error build_failing_world
      = Some (''Build '' @ e_acute @ ''chou'' @ e_acute @ '': exit code 1'')"
    by (simp add: build_error_def build_failing_world_def)
  have m4: "mkdir_workDir sample_world = None" by (simp add: sample_world_def)
  note t1 = pipeline_failures_reported [of no_disk_world "''ENOSPC: no space left on device''"
      sample_ops sample_texts ?c]
  note t2 = pipeline_failures_reported [of clone_failing_world e sample_ops sample_texts ?c]
  note t3 = pipeline_failures_reported [of build_failing_world
      "''Build '' @ e_acute @ ''chou'' @ e_acute @ '': exit code 1''" sample_ops sample_texts ?c]
  note t4 = pipeline_failures_reported [of sample_world "[]" sample_ops sample_texts ?c]
  have r1: "errors (report (runOptimizationPipeline no_disk_world sample_ops sample_texts ?c))
      = [''ENOSPC: no space left on device'']"
    using t1 m1 by simp
  have r2: "success (report (runOptimizationPipeline clone_failing_world sample_ops
      sample_texts ?c)) = False"
    using t2 m2 f2 by simp
  have r3: "errors (report (runOptimizationPipeline build_failing_world sample_ops
      sample_texts ?c))
      = [''Build '' @ e_acute @ ''chou'' @ e_acute @ '': exit code 1'',
         ''Build '' @ e_acute @ ''chou'' @ e_acute @ '': exit code 1'']"
    using t3 m3 f3 b3 by simp
  have r4: "success (report (runOptimizationPipeline sample_world sample_ops sample_texts ?c))
      = True"
    using t4 m4 sample_fetch_ok [of "''https://github.com/o/r.git''"] sample_build_ok by simp
  from m1 r1 f2 r2 b3 r3 r4 show ?thesis by simp
qed

text \<open>
  C3. When the scoring tool fails or runs into its timeout, \<^verbatim>\<open>runLighthouse\<close> returns the
  result with the four scores zero and throws nothing. In the pipeline a failed first audit
  leaves that result in \<open>before\<close> and the run goes on to create the branch and to build;
  with all three audits failed and the build passing, the run ends with \<open>success = True\<close>
  and the three zero results in the report.
\<close>

theorem audit_failure_gives_zero_scores:
  "(lh_exec L = Some m \<longrightarrow>
      fst (runLighthouse u p L) = default_result u p L
      \<and> performance (scores (fst (runLighthouse u p L))) = 0
      \<and> accessibility (scores (fst (runLighthouse u p L))) = 0
      \<and> bestPractices (scores (fst (runLighthouse u p L))) = 0
      \<and> LighthouseScore.seo (scores (fst (runLighthouse u p L))) = 0)
   \<and> (mkdir_workDir W = None \<and> fetch_error W config = None
       \<and> lh_exec (lighthouse_world W 0) = Some m \<longrightarrow>
      before (lighthouse (report (runOptimizationPipeline W T P config)))
        = Some (default_result (siteUrl config) Desktop (lighthouse_world W 0))
      \<and> GitCheckoutNew (optimizeBranch config)
          \<in> set (commands (runOptimizationPipeline W T P config))
      \<and> NpmRunBuild \<in> set (commands (runOptimizationPipeline W T P config)))
   \<and> (mkdir_workDir W = None \<and> fetch_error W config = None \<and> build_error W = None
       \<and> lh_exec (lighthouse_world W 0) = Some m \<and> lh_exec (lighthouse_world W 1) = Some m1
       \<and> lh_exec (lighthouse_world W 2) = Some m2 \<longrightarrow>
      success (report (runOptimizationPipeline W T P config)) = True
      \<and> lighthouse (report (runOptimizationPipeline W T P config))
          = \<lparr>before = Some (default_result (siteUrl config) Desktop (lighthouse_world W 0)),
             after = Some (default_result (siteUrl config) Desktop (lighthouse_world W 1)),
             mobile = Some (default_result (siteUrl config) Mobile (lighthouse_world W 2))\<rparr>)"
proof (intro conjI impI)
  assume a: "lh_exec L = Some m"
  show d: "fst (runLighthouse u p L) = default_result u p L"
    by (rule runLighthouse_tool_failure [OF a])
  show "performance (scores (fst (runLighthouse u p L))) = 0"
    and "accessibility (scores (fst (runLighthouse u p L))) = 0"
    and "bestPractices (scores (fst (runLighthouse u p L))) = 0"
    and "LighthouseScore.seo (scores (fst (runLighthouse u p L))) = 0"
    by (simp_all add: d default_result_def zero_scores_def)
next
  assume a: "mkdir_workDir W = None \<and> fetch_error W config = None
    \<and> lh_exec (lighthouse_world W 0) = Some m"
  then have a1: "mkdir_workDir W = None" and a2: "fetch_error W config = None"
    and a3: "lh_exec (lighthouse_world W 0) = Some m" by simp_all
  note d = runLighthouse_tool_failure [OF a3, where u = "siteUrl config" and p = Desktop]
  show "before (lighthouse (report (runOptimizationPipeline W T P config)))
      = Some (default_result (siteUrl config) Desktop (lighthouse_world W 0))"
  proof (cases "build_error W")
    case None
    then show ?thesis using run_ok(5) [OF a1 a2 None, where T = T and P = P] d by simp
  next
    case (Some e)
    then show ?thesis using run_build_fail(5) [OF a1 a2 Some, where T = T and P = P] d by simp
  qed
  show "GitCheckoutNew (optimizeBranch config)
      \<in> set (commands (runOptimizationPipeline W T P config))"
    by (rule run_commands_after_fetch(1) [OF a1 a2])
  show "NpmRunBuild \<in> set (commands (runOptimizationPipeline W T P config))"
    by (rule run_commands_after_fetch(2) [OF a1 a2])
next
  assume a: "mkdir_workDir W = None \<and> fetch_error W config = None \<and> build_error W = None
    \<and> lh_exec (lighthouse_world W 0) = Some m \<and> lh_exec (lighthouse_world W 1) = Some m1
    \<and> lh_exec (lighthouse_world W 2) = Some m2"
  then have a1: "mkdir_workDir W = None" and a2: "fetch_error W config = None"
    and a3: "build_error W = None" and l0: "lh_exec (lighthouse_world W 0) = Some m"
    and l1: "lh_exec (lighthouse_world W 1) = Some m1"
    and l2: "lh_exec (lighthouse_world W 2) = Some m2" by simp_all
  show "success (report (runOptimizationPipeline W T P config)) = True"
    by (rule run_ok(1) [OF a1 a2 a3])
  show "lighthouse (report (runOptimizationPipeline W T P config))
      = \<lparr>before = Some (default_result (siteUrl config) Desktop (lighthouse_world W 0)),
         after = Some (default_result (siteUrl config) Desktop (lighthouse_world W 1)),
         mobile = Some (default_result (siteUrl config) Mobile (lighthouse_world W 2))\<rparr>"
    using run_ok(5) [OF a1 a2 a3, where T = T and P = P]
      runLighthouse_tool_failure [OF l0, where u = "siteUrl config" and p = Desktop]
      runLighthouse_tool_failure [OF l1, where u = "siteUrl config" and p = Desktop]
      runLighthouse_tool_failure [OF l2, where u = "siteUrl config" and p = Mobile]
    by simp
qed

theorem audit_failure_gives_zero_scores_witness:
  "lh_exec audit_down = Some ''Command failed: npx lighthouse''
   \<and> performance (scores (fst (runLighthouse ''https://www.example.com'' Mobile audit_down))) = 0
   \<and> mkdir_workDir sample_world = None
   \<and> fetch_error sample_world (sample_config ''https://github.com/o/r.git'') = None
   \<and> build_error sample_world = None
   \<and> NpmRunBuild \<in> set (commands (runOptimizationPipeline sample_world sample_ops sample_texts
         (sample_config ''https://github.com/o/r.git'')))
   \<and> success (report (runOptimizationPipeline sample_world sample_ops sample_texts
         (sample_config ''https://github.com/o/r.git''))) = True"
proof -
  let ?c = "sample_config ''https://github.com/o/r.git''"
  let ?m = "''Command failed: npx lighthouse''"
  have a: "lh_exec audit_down = Some ?m" by (simp add: audit_down_def)
  have l: "lh_exec (lighthouse_world sample_world n) = Some ?m" for n
    by (simp add: sample_world_def audit_down_def)
  have m: "mkdir_workDir sample_world = None" by (simp add: sample_world_def)
  note f = sample_fetch_ok [of "''https://github.com/o/r.git''"]
  note b = sample_build_ok
  note t1 = audit_failure_gives_zero_scores [of audit_down ?m "''https://www.example.com''"
      Mobile sample_world ?c sample_ops sample_texts ?m ?m]
  have p: "performance (scores (fst (runLighthouse ''https://www.example.com'' Mobile
      audit_down))) = 0"
    using t1 a by blast
  have q: "NpmRunBuild \<in> set (commands (runOptimizationPipeline sample_world sample_ops
      sample_texts ?c))"
    using t1 m f l [of 0] by blast
  have r: "success (report (runOptimizationPipeline sample_world sample_ops sample_texts ?c))
      = True"
    using t1 m f b l [of 0] l [of 1] l [of 2] by blast
  from a p m f b q r show ?thesis by blast
qed

lemma fetchSources_git_commands:
  "conn_type (connectionData config) = Some ''git'' \<Longrightarrow>
     commands (snd (fetchSources W config dir s))
       = commands s @ [GitClone (or_default (conn_branch (connectionData config)) ''main'')
                         (tpl (repoUrl (connectionData config))) dir]"
  by (simp add: fetchSources_def Let_def execAsync_def console_log_def
      split: prod.splits sum.splits)

lemma state_built_keeps_commands:
  "set (commands (state_fetched W config)) \<subseteq> set (commands (state_built W T P config))"
proof -
  have "set (commands (state_fetched W config))
      \<subseteq> set (commands (createOptimizationBranch W (optimizeBranch config)
            (audit_before W config (state_fetched W config))))"
    by (auto simp: createOptimizationBranch_fields audit_before_fields)
  also have "\<dots> \<subseteq> set (commands (installDependencies W
      (createOptimizationBranch W (optimizeBranch config)
         (audit_before W config (state_fetched W config)))))"
    by (rule installDependencies_fields)
  also have "\<dots> \<subseteq> set (commands (state_built W T P config))"
    by (auto simp: state_built_def state_checked_def buildProject_fields runQualityChecks_fields
        apply_patches_fields)
  finally show ?thesis .
qed

lemma state_built_keeps_logs:
  "set (logs (state_fetched W config)) \<subseteq> set (logs (state_built W T P config))"
proof -
  have "set (logs (state_fetched W config))
      \<subseteq> set (logs (audit_before W config (state_fetched W config)))"
    by (rule audit_before_fields)
  also have "\<dots> \<subseteq> set (logs (createOptimizationBranch W (optimizeBranch config)
      (audit_before W config (state_fetched W config))))"
    by (rule createOptimizationBranch_fields)
  also have "\<dots> \<subseteq> set (logs (installDependencies W
      (createOptimizationBranch W (optimizeBranch config)
         (audit_before W config (state_fetched W config)))))"
    by (rule installDependencies_fields)
  also have "\<dots> = set (logs (apply_patches T config (installDependencies W
      (createOptimizationBranch W (optimizeBranch config)
         (audit_before W config (state_fetched W config))))))"
    by (simp add: apply_patches_fields)
  also have "\<dots> \<subseteq> set (logs (state_checked W T P config))"
    unfolding state_checked_def by (rule runQualityChecks_fields)
  also have "\<dots> \<subseteq> set (logs (state_built W T P config))"
    unfolding state_built_def by (rule buildProject_fields)
  finally show ?thesis .
qed

lemma run_keeps_fetch_trace:
  assumes "mkdir_workDir W = None"
  shows "set (commands (state_fetched W config))
           \<subseteq> set (commands (runOptimizationPipeline W T P config))"
    and "set (logs (state_fetched W config))
           \<subseteq> set (logs (runOptimizationPipeline W T P config))"
proof -
  note c = state_built_keeps_commands [where W = W and config = config and T = T and P = P]
  note l = state_built_keeps_logs [where W = W and config = config and T = T and P = P]
  note fc = finish_run_commands [where s = "state_built W T P config" and W = W and P = P
      and config = config]
  note fl = finish_run_logs [where s = "state_built W T P config" and W = W and P = P
      and config = config]
  note cl = caught_fields(7)
  show "set (commands (state_fetched W config))
           \<subseteq> set (commands (runOptimizationPipeline W T P config))"
    using assms c fc
    by (cases "fetch_error W config"; cases "build_error W")
      (auto simp: run_cases caught_fields)
  show "set (logs (state_fetched W config))
           \<subseteq> set (logs (runOptimizationPipeline W T P config))"
  proof (cases "fetch_error W config")
    case (Some m)
    then show ?thesis using assms cl [of "state_fetched W config" m] by (simp add: run_cases)
  next
    case None
    show ?thesis
    proof (cases "build_error W")
      case (Some m)
      then show ?thesis
        using assms None l cl [of "state_built W T P config" m] by (auto simp: run_cases)
    next
      case none: None
      then show ?thesis using assms None l fl by (auto simp: run_cases)
    qed
  qed
qed

lemma commitChanges_all_succeed:
  assumes "\<And>c. exec W c = Inr []"
  shows "commands (commitChanges W P config s)
     = commands s @ [GitAddAll,
         GitCommit (commitMessageText P (length (applied (perf (report s))))
           (length (applied (OptimizationReport.seo (report s)))) (after (lighthouse (report s)))),
         GitPush (optimizeBranch config)]"
  by (simp add: commitChanges_def Let_def execAsync_def console_log_def assms)

lemma publish_keeps_commit:
  "set (commands (commitChanges W P config s)) \<subseteq> set (commands (publish W P config s))"
  by (simp add: publish_def Let_def createPullRequest_fields)

lemma finish_run_publishes:
  assumes "\<And>c. exec W c = Inr []"
  shows "GitPush (optimizeBranch config) \<in> set (commands (finish_run W P config s))"
    and "list_ex is_commit (commands (finish_run W P config s))"
proof -
  define s5 where "s5 = validateScores config (compute_diffs (audit_after W config s))"
  have f: "commands (finish_run W P config s) = commands (publish W P config s5)"
    by (simp add: finish_run_def Let_def s5_def mark_success_fields)
  note c = commitChanges_all_succeed [OF assms, where P = P and config = config and s = s5]
  note p = publish_keeps_commit [where W = W and P = P and config = config and s = s5]
  show "GitPush (optimizeBranch config) \<in> set (commands (finish_run W P config s))"
    using c p by (auto simp: f)
  have "GitCommit (commitMessageText P (length (applied (perf (report s5))))
           (length (applied (OptimizationReport.seo (report s5)))) (after (lighthouse (report s5))))
      \<in> set (commands (finish_run W P config s))"
    using c p by (auto simp: f)
  then show "list_ex is_commit (commands (finish_run W P config s))"
    unfolding list_ex_iff by (rule bexI [rotated]) (simp add: is_commit_def)
qed

text \<open>
  C2. The pipeline never looks at \<open>allowedHosts\<close>: a repository on a host outside the
  allow-list is cloned like any other. With the sample world, where every command succeeds,
  the run for such a repository ends with \<open>success = True\<close> after creating the branch,
  committing and pushing. The strings are ASCII, on which \<^verbatim>\<open>toLowerCase\<close> is
  \<^const>\<open>ascii_lower\<close>.
\<close>

theorem disallowed_host_is_fetched:
  "\<not> isHostAllowed ascii_lower ''https://evil.example.org/x.git''
       (allowedHosts (sample_config ''https://evil.example.org/x.git''))
   \<and> success (report (runOptimizationPipeline sample_world sample_ops sample_texts
         (sample_config ''https://evil.example.org/x.git''))) = True
   \<and> GitClone ''main'' ''https://evil.example.org/x.git'' ''/tmp/workdir-conn_1-7''
       \<in> set (commands (runOptimizationPipeline sample_world sample_ops sample_texts
             (sample_config ''https://evil.example.org/x.git'')))
   \<and> GitCheckoutNew ''chore/optimize-auto''
       \<in> set (commands (runOptimizationPipeline sample_world sample_ops sample_texts
             (sample_config ''https://evil.example.org/x.git'')))
   \<and> list_ex is_commit (commands (runOptimizationPipeline sample_world sample_ops sample_texts
         (sample_config ''https://evil.example.org/x.git'')))
   \<and> GitPush ''chore/optimize-auto''
       \<in> set (commands (runOptimizationPipeline sample_world sample_ops sample_texts
             (sample_config ''https://evil.example.org/x.git'')))"
proof -
  let ?c = "sample_config ''https://evil.example.org/x.git''"
  let ?R = "runOptimizationPipeline sample_world sample_ops sample_texts ?c"
  have h: "\<not> isHostAllowed ascii_lower ''https://evil.example.org/x.git'' [''github.com'']"
    by code_simp
  have m: "mkdir_workDir sample_world = None" by (simp add: sample_world_def)
  have e: "exec sample_world c = Inr []" for c by (simp add: sample_world_def)
  note f = sample_fetch_ok [of "''https://evil.example.org/x.git''"]
  note b = sample_build_ok
  have w: "workDir_of sample_world ?c = ''/tmp/workdir-conn_1-7''"
    by code_simp
  have opt: "optimizeBranch ?c = ''chore/optimize-auto''" by (simp add: sample_config_def)
  have g: "conn_type (connectionData ?c) = Some ''git''"
    and gb: "or_default (conn_branch (connectionData ?c)) ''main'' = ''main''"
    and gu: "tpl (repoUrl (connectionData ?c)) = ''https://evil.example.org/x.git''"
    by (simp_all add: sample_config_def git_connection_def or_default_def tpl_def)
  have "commands (state_fetched sample_world ?c)
      = [GitClone ''main'' ''https://evil.example.org/x.git'' ''/tmp/workdir-conn_1-7'']"
    unfolding state_fetched_def fetchSources_git_commands [OF g] gb gu w
    using state_prepared_fields(6) [OF m, where config = ?c] by simp
  then have clone: "GitClone ''main'' ''https://evil.example.org/x.git'' ''/tmp/workdir-conn_1-7''
      \<in> set (commands ?R)"
    using run_keeps_fetch_trace(1) [OF m, where config = ?c and T = sample_ops
        and P = sample_texts]
    by auto
  have r: "?R = finish_run sample_world sample_texts ?c
      (state_built sample_world sample_ops sample_texts ?c)"
    by (simp add: run_cases m f b)
  note p = finish_run_publishes [where W = sample_world and P = sample_texts and config = ?c
      and s = "state_built sample_world sample_ops sample_texts ?c", OF e]
  from h clone run_ok(1) [OF m f b] run_commands_after_fetch(1) [OF m f] p
  show ?thesis
    by (simp add: r [symmetric] opt) (simp add: sample_config_def)
qed

text \<open>
  C5. The repository URL is printed as it is when the clone starts, and the message of a
  failed clone, which carries the command line, goes to \<open>errors\<close>: a token inside the URL
  is in a log line and in the report.
\<close>

theorem clone_url_token_leaks:
  "list_ex (\<lambda>line. str_includes line ''ghp_s3cr3t'')
     (logs (runOptimizationPipeline clone_failing_world sample_ops sample_texts
        (sample_config ''https://ghp_s3cr3t@github.com/o/r.git'')))
   \<and> list_ex (\<lambda>message. str_includes message ''ghp_s3cr3t'')
     (errors (report (runOptimizationPipeline clone_failing_world sample_ops sample_texts
        (sample_config ''https://ghp_s3cr3t@github.com/o/r.git''))))"
proof -
  let ?c = "sample_config ''https://ghp_s3cr3t@github.com/o/r.git''"
  let ?R = "runOptimizationPipeline clone_failing_world sample_ops sample_texts ?c"
  let ?line = "[CHR 0xF0, CHR 0x9F, CHR 0x94, CHR 0x84] @ '' Clonage du d'' @ e_acute @ ''p''
      @ o_circ @ ''t Git: '' @ ''https://ghp_s3cr3t@github.com/o/r.git''"
  let ?msg = "''Command failed: '' @ clone_command_line ''main''
      ''https://ghp_s3cr3t@github.com/o/r.git'' ''/tmp/workdir-conn_1-7'' @ [CHR 0x0A]
      @ ''fatal: repository not found''"
  have m: "mkdir_workDir clone_failing_world = None"
    by (simp add: clone_failing_world_def sample_world_def)
  have w: "workDir_of clone_failing_world ?c = ''/tmp/workdir-conn_1-7''"
    by code_simp
  have f: "fetch_error clone_failing_world ?c = Some ?msg"
    unfolding fetch_error_def w
    by (simp add: fetchSources_def Let_def execAsync_def clone_failing_world_def
        sample_world_def sample_config_def git_connection_def or_default_def tpl_def)
  have g: "conn_type (connectionData ?c) = Some ''git''"
    by (simp add: sample_config_def git_connection_def)
  have "?line \<in> set (logs (state_fetched clone_failing_world ?c))"
    using fetchSources_git_log [OF g, where W = clone_failing_world
        and dir = "workDir_of clone_failing_world ?c"
        and s = "state_prepared clone_failing_world ?c"]
    by (simp add: state_fetched_def sample_config_def git_connection_def tpl_def)
  then have l: "?line \<in> set (logs ?R)"
    using run_keeps_fetch_trace(2) [OF m, where config = ?c and T = sample_ops
        and P = sample_texts]
    by blast
  have i1: "str_includes ?line ''ghp_s3cr3t''" by code_simp
  have i2: "str_includes ?msg ''ghp_s3cr3t''" by code_simp
  have "list_ex (\<lambda>line. str_includes line ''ghp_s3cr3t'') (logs ?R)"
    unfolding list_ex_iff using l i1 by blast
  moreover have "list_ex (\<lambda>message. str_includes message ''ghp_s3cr3t'') (errors (report ?R))"
    using i2 by (simp add: run_fetch_fail(2) [OF m f])
  ultimately show ?thesis by simp
qed

text \<open>
  C4. In every report a run returns: when both the \<open>before\<close> and the \<open>after\<close> snapshot are
  there, \<open>diffs\<close> has exactly the four dimensions, each with the \<open>after\<close> score minus the
  \<open>before\<close> score; when either snapshot is missing, \<open>diffs\<close> is empty.
\<close>

theorem diffs_are_after_minus_before:
  "(before (lighthouse (report (runOptimizationPipeline W T P config))) = Some b
    \<and> after (lighthouse (report (runOptimizationPipeline W T P config))) = Some a \<longrightarrow>
      diffs (report (runOptimizationPipeline W T P config)) = compareAudits b a
      \<and> map (\<lambda>d. map_of (diffs (report (runOptimizationPipeline W T P config))) d)
            [''performance'', ''accessibility'', ''bestPractices'', ''seo'']
          = [Some (performance (scores a) - performance (scores b)),
             Some (accessibility (scores a) - accessibility (scores b)),
             Some (bestPractices (scores a) - bestPractices (scores b)),
             Some (LighthouseScore.seo (scores a) - LighthouseScore.seo (scores b))]
      \<and> length (diffs (report (runOptimizationPipeline W T P config))) = 4)
   \<and> (before (lighthouse (report (runOptimizationPipeline W T P config))) = None
       \<or> after (lighthouse (report (runOptimizationPipeline W T P config))) = None \<longrightarrow>
      diffs (report (runOptimizationPipeline W T P config)) = [])"
proof -
  let ?R = "runOptimizationPipeline W T P config"
  have both: "diffs (report ?R) = compareAudits b a"
    if "before (lighthouse (report ?R)) = Some b" and "after (lighthouse (report ?R)) = Some a"
  proof (cases "mkdir_workDir W")
    case (Some m)
    with that show ?thesis by (simp add: run_mkdir_fail(1) initial_report_def)
  next
    case None
    show ?thesis
    proof (cases "fetch_error W config")
      case (Some m)
      with that None show ?thesis by (simp add: run_fetch_fail(5))
    next
      case f: None
      show ?thesis
      proof (cases "build_error W")
        case (Some m)
        with that None f show ?thesis by (simp add: run_build_fail(5))
      next
        case bn: None
        from that show ?thesis
          by (simp add: run_ok(4,5) [OF None f bn])
      qed
    qed
  qed
  have missing: "diffs (report ?R) = []"
    if "before (lighthouse (report ?R)) = None \<or> after (lighthouse (report ?R)) = None"
  proof (cases "mkdir_workDir W")
    case (Some m)
    then show ?thesis by (simp add: run_mkdir_fail(1) initial_report_def)
  next
    case None
    show ?thesis
    proof (cases "fetch_error W config")
      case (Some m)
      with None show ?thesis by (simp add: run_fetch_fail(4))
    next
      case f: None
      show ?thesis
      proof (cases "build_error W")
        case (Some m)
        with None f show ?thesis by (simp add: run_build_fail(4))
      next
        case bn: None
        from that show ?thesis
          by (simp add: run_ok(5) [OF None f bn])
      qed
    qed
  qed
  show ?thesis
    using both missing by (auto simp: compareAudits_def)
qed

theorem diffs_are_after_minus_before_witness:
  "before (lighthouse (report (runOptimizationPipeline scored_world sample_ops sample_texts
       (sample_config ''https://github.com/o/r.git''))))
     = Some (fst (runLighthouse ''https://www.example.com'' Desktop (audit_up (1 / 2))))
   \<and> after (lighthouse (report (runOptimizationPipeline scored_world sample_ops sample_texts
       (sample_config ''https://github.com/o/r.git''))))
     = Some (fst (runLighthouse ''https://www.example.com'' Desktop (audit_up (4 / 5))))
   \<and> diffs (report (runOptimizationPipeline scored_world sample_ops sample_texts
       (sample_config ''https://github.com/o/r.git'')))
     = [(''performance'', 30), (''accessibility'', 0), (''bestPractices'', 0), (''seo'', 0)]
   \<and> after (lighthouse (report (runOptimizationPipeline build_failing_world sample_ops
       sample_texts (sample_config ''https://github.com/o/r.git'')))) = None
   \<and> diffs (report (runOptimizationPipeline build_failing_world sample_ops sample_texts
       (sample_config ''https://github.com/o/r.git''))) = []"
proof -
  let ?c = "sample_config ''https://github.com/o/r.git''"
  let ?b = "fst (runLighthouse ''https://www.example.com'' Desktop (audit_up (1 / 2)))"
  let ?a = "fst (runLighthouse ''https://www.example.com'' Desktop (audit_up (4 / 5)))"
  have m: "mkdir_workDir scored_world = None" by (simp add: scored_world_def sample_world_def)
  have f: "fetch_error scored_world ?c = None"
    by (simp add: fetch_error_def fetchSources_def Let_def execAsync_def scored_world_def
        sample_world_def sample_config_def git_connection_def)
  have b: "build_error scored_world = None"
    by (simp add: build_error_def scored_world_def sample_world_def)
  have u: "siteUrl ?c = ''https://www.example.com''" by (simp add: sample_config_def)
  have w0: "lighthouse_world scored_world 0 = audit_up (1 / 2)"
    and w1: "lighthouse_world scored_world (Suc 0) = audit_up (4 / 5)"
    by (simp_all add: scored_world_def)
  note l = run_ok(5) [OF m f b, where T = sample_ops and P = sample_texts]
  have before: "before (lighthouse (report (runOptimizationPipeline scored_world sample_ops
      sample_texts ?c))) = Some ?b"
    and after: "after (lighthouse (report (runOptimizationPipeline scored_world sample_ops
      sample_texts ?c))) = Some ?a"
    by (simp_all add: l u w0 w1)
  have v: "compareAudits ?b ?a
      = [(''performance'', 30), (''accessibility'', 0), (''bestPractices'', 0), (''seo'', 0)]"
    by code_simp
  note t1 = diffs_are_after_minus_before [of scored_world sample_ops sample_texts ?c ?b ?a]
  have d1: "diffs (report (runOptimizationPipeline scored_world sample_ops sample_texts ?c))
      = [(''performance'', 30), (''accessibility'', 0), (''bestPractices'', 0), (''seo'', 0)]"
    using t1 before after v by simp
  have m3: "mkdir_workDir build_failing_world = None"
    by (simp add: build_failing_world_def sample_world_def)
  have f3: "fetch_error build_failing_world ?c = None"
    by (simp add: fetch_error_def fetchSources_def Let_def execAsync_def
        build_failing_world_def sample_world_def sample_config_def git_connection_def)
  obtain e where b3: "build_error build_failing_world = Some e"
    by (simp add: build_error_def build_failing_world_def)
  have n: "after (lighthouse (report (runOptimizationPipeline build_failing_world sample_ops
      sample_texts ?c))) = None"
    by (simp add: run_build_fail(5) [OF m3 f3 b3])
  note t2 = diffs_are_after_minus_before [of build_failing_world sample_ops sample_texts ?c ?b ?a]
  have d2: "diffs (report (runOptimizationPipeline build_failing_world sample_ops sample_texts
      ?c)) = []"
    using t2 n by blast
  from before after d1 n d2 show ?thesis by blast
qed

text \<open>
  C6. \<^verbatim>\<open>installDependencies\<close> runs nothing and changes nothing in the report when the
  working tree has no \<^verbatim>\<open>package.json\<close>. With a manifest it runs one install command:
  \<^verbatim>\<open>pnpm install\<close> when \<^verbatim>\<open>pnpm-lock.yaml\<close> is there, whatever other lockfile is; else
  \<^verbatim>\<open>yarn install\<close> when \<^verbatim>\<open>yarn.lock\<close> is there; else \<^verbatim>\<open>npm install\<close>, with
  \<^verbatim>\<open>package-lock.json\<close> and without any lockfile. It never throws and never touches the
  report, also when the install command fails.
\<close>

theorem installDependencies_manager:
  "report (installDependencies W s) = report s
   \<and> (\<not> fileExists [''package.json''] (tree s) \<longrightarrow>
        commands (installDependencies W s) = commands s
        \<and> tree (installDependencies W s) = tree s)
   \<and> (fileExists [''package.json''] (tree s) \<and> fileExists [''pnpm-lock.yaml''] (tree s) \<longrightarrow>
        commands (installDependencies W s) = commands s @ [InstallDeps ''pnpm install''])
   \<and> (fileExists [''package.json''] (tree s) \<and> \<not> fileExists [''pnpm-lock.yaml''] (tree s)
       \<and> fileExists [''yarn.lock''] (tree s) \<longrightarrow>
        commands (installDependencies W s) = commands s @ [InstallDeps ''yarn install''])
   \<and> (fileExists [''package.json''] (tree s) \<and> \<not> fileExists [''pnpm-lock.yaml''] (tree s)
       \<and> \<not> fileExists [''yarn.lock''] (tree s) \<and> fileExists [''package-lock.json''] (tree s) \<longrightarrow>
        commands (installDependencies W s) = commands s @ [InstallDeps ''npm install''])
   \<and> (fileExists [''package.json''] (tree s) \<and> \<not> fileExists [''pnpm-lock.yaml''] (tree s)
       \<and> \<not> fileExists [''yarn.lock''] (tree s) \<and> \<not> fileExists [''package-lock.json''] (tree s) \<longrightarrow>
        commands (installDependencies W s) = commands s @ [InstallDeps ''npm install''])"
proof -
  have r: "report (installDependencies W s) = report s"
    by (rule installDependencies_fields)
  have c: "commands (installDependencies W s) =
      (if \<not> fileExists [''package.json''] (tree s) then commands s
       else commands s @ [InstallDeps
         (if fileExists [''pnpm-lock.yaml''] (tree s) then ''pnpm install''
          else if fileExists [''yarn.lock''] (tree s) then ''yarn install''
          else ''npm install'')])"
    by (simp add: installDependencies_def Let_def execAsync_def console_log_def
        split: prod.splits sum.splits)
  have t: "\<not> fileExists [''package.json''] (tree s) \<Longrightarrow> tree (installDependencies W s) = tree s"
    by (simp add: installDependencies_def Let_def console_log_def)
  from r t show ?thesis unfolding c by simp
qed

theorem installDependencies_manager_witness:
  "\<not> fileExists [''package.json''] (tree (state_with_files [''pnpm-lock.yaml'']))
   \<and> commands (installDependencies sample_world (state_with_files [''pnpm-lock.yaml''])) = []
   \<and> commands (installDependencies sample_world
        (state_with_files [''package.json'', ''package-lock.json'', ''yarn.lock'',
           ''pnpm-lock.yaml'']))
       = [InstallDeps ''pnpm install'']
   \<and> commands (installDependencies sample_world
        (state_with_files [''package.json'', ''package-lock.json'', ''yarn.lock'']))
       = [InstallDeps ''yarn install'']
   \<and> commands (installDependencies sample_world
        (state_with_files [''package.json'', ''package-lock.json'']))
       = [InstallDeps ''npm install'']
   \<and> commands (installDependencies sample_world (state_with_files [''package.json'']))
       = [InstallDeps ''npm install'']"
proof -
  have e: "commands (state_with_files names) = []" for names
    by (simp add: state_with_files_def initial_state_def)
  have x: "fileExists [n] (tree (state_with_files names)) = (n \<in> set names)" for n names
    by (induction names) (auto simp: state_with_files_def fileExists_def)
  note t0 = installDependencies_manager [of sample_world "state_with_files [''pnpm-lock.yaml'']"]
  note t1 = installDependencies_manager [of sample_world
      "state_with_files [''package.json'', ''package-lock.json'', ''yarn.lock'',
         ''pnpm-lock.yaml'']"]
  note t2 = installDependencies_manager [of sample_world
      "state_with_files [''package.json'', ''package-lock.json'', ''yarn.lock'']"]
  note t3 = installDependencies_manager [of sample_world
      "state_with_files [''package.json'', ''package-lock.json'']"]
  note t4 = installDependencies_manager [of sample_world "state_with_files [''package.json'']"]
  have a0: "\<not> fileExists [''package.json''] (tree (state_with_files [''pnpm-lock.yaml'']))"
    by (simp add: x)
  have r0: "commands (installDependencies sample_world (state_with_files [''pnpm-lock.yaml'']))
      = []"
    using t0 a0 by (simp add: e)
  have r1: "commands (installDependencies sample_world
        (state_with_files [''package.json'', ''package-lock.json'', ''yarn.lock'',
           ''pnpm-lock.yaml'']))
       = [InstallDeps ''pnpm install'']"
    using t1 by (simp add: x e)
  have r2: "commands (installDependencies sample_world
        (state_with_files [''package.json'', ''package-lock.json'', ''yarn.lock'']))
       = [InstallDeps ''yarn install'']"
    using t2 by (simp add: x e)
  have r3: "commands (installDependencies sample_world
        (state_with_files [''package.json'', ''package-lock.json'']))
       = [InstallDeps ''npm install'']"
    using t3 by (simp add: x e)
  have r4: "commands (installDependencies sample_world (state_with_files [''package.json'']))
       = [InstallDeps ''npm install'']"
    using t4 by (simp add: x e)
  from a0 r0 r1 r2 r3 r4 show ?thesis by blast
qed

end
